theory Spec2Isabelle
  imports Complex_Main
begin

section \<open>Time budgeting of the engine (timeinfo.c)\<close>

text \<open>
  A shallow embedding of \<^verbatim>\<open>timeinfo.c\<close>. Conventions:
  \<^item> a C \<^verbatim>\<open>int\<close> is a HOL \<open>int\<close>; the values of this file (seconds, stones, periods,
    move numbers, board sizes) are far from the 32-bit limits, and signed overflow, which
    is undefined in C, is outside the model. Integer division truncates towards zero
    (\<open>c_div\<close>), and a zero divisor ends the run (the signal \<^verbatim>\<open>SIGFPE\<close>);
  \<^item> a C \<^verbatim>\<open>double\<close> is a value of the type \<open>double\<close> below: a binary64 number, an
    infinity, or a NaN, with the arithmetic of IEEE 754 in its default rounding (to
    nearest, ties to even);
  \<^item> \<^verbatim>\<open>assert\<close> is compiled in (the file does not define \<^verbatim>\<open>NDEBUG\<close>): a failed
    assertion ends the run with the value \<open>Inl\<close> of the assertion;
  \<^item> \<^verbatim>\<open>struct time_info\<close> is passed by pointer and updated in place: each function
    takes the record and returns the updated one;
  \<^item> \<^verbatim>\<open>time_now()\<close> reads the wall clock: the value read is the parameter \<open>now\<close>;
  \<^item> the \<^verbatim>\<open>fprintf\<close> calls under \<^verbatim>\<open>DEBUGL\<close> only print and are left out.
\<close>

subsection \<open>Doubles\<close>

text \<open>
  \<open>Fin x\<close> is the finite double of value \<open>x\<close>. The two zeros of IEEE 754 are one value
  here, \<open>Fin 0\<close>: they compare equal, and the sign of a zero shows only in a division
  by it. Every divisor of \<^verbatim>\<open>timeinfo.c\<close> that can be zero is an \<^verbatim>\<open>int\<close> converted to
  \<^verbatim>\<open>double\<close>, so a zero divisor is the positive zero.
\<close>

datatype double = Fin real | PInf | NInf | NaN

text \<open>Two to an integer power.\<close>

definition pow2 :: "int \<Rightarrow> real" where
  "pow2 e = (if 0 \<le> e then 2 ^ nat e else 1 / 2 ^ nat (- e))"

text \<open>The nearest integer, the even one of the two when both are as near.\<close>

definition round_even :: "real \<Rightarrow> int" where
  "round_even y =
     (let f = \<lfloor>y\<rfloor>; r = y - of_int f
      in if r < 1 / 2 then f
         else if r > 1 / 2 then f + 1
         else if even f then f else f + 1)"

text \<open>
  The exponent of the unit in the last of the 53 binary digits of a number: 52 below
  the exponent of the number, and \<open>- 1074\<close> for the numbers under \<open>2 ^ - 1022\<close>, where
  binary64 has a fixed unit.
\<close>

definition ulp_exp :: "real \<Rightarrow> int" where
  "ulp_exp x = max \<lfloor>log 2 \<bar>x\<bar>\<rfloor> (- 1022) - 52"

text \<open>A real rounded to 53 binary digits, with no upper limit on the exponent.\<close>

definition round53 :: "real \<Rightarrow> real" where
  "round53 x =
     (if x = 0 then 0
      else sgn x * of_int (round_even (\<bar>x\<bar> / pow2 (ulp_exp x))) * pow2 (ulp_exp x))"

definition DBL_MAX :: real where
  "DBL_MAX = (2 ^ 53 - 1) * 2 ^ 971"

text \<open>The double that a real result rounds to: an infinity when beyond the largest double.\<close>

definition rnd :: "real \<Rightarrow> double" where
  "rnd x =
     (let y = round53 x
      in if y > DBL_MAX then PInf else if y < - DBL_MAX then NInf else Fin y)"

definition dneg :: "double \<Rightarrow> double" where
  "dneg a = (case a of Fin x \<Rightarrow> Fin (- x) | PInf \<Rightarrow> NInf | NInf \<Rightarrow> PInf | NaN \<Rightarrow> NaN)"

fun dadd :: "double \<Rightarrow> double \<Rightarrow> double" where
  "dadd (Fin a) (Fin b) = rnd (a + b)"
| "dadd NaN b = NaN"
| "dadd a NaN = NaN"
| "dadd PInf NInf = NaN"
| "dadd NInf PInf = NaN"
| "dadd PInf b = PInf"
| "dadd a PInf = PInf"
| "dadd NInf b = NInf"
| "dadd a NInf = NInf"

definition dsub :: "double \<Rightarrow> double \<Rightarrow> double" where
  "dsub a b = dadd a (dneg b)"

fun dmul :: "double \<Rightarrow> double \<Rightarrow> double" where
  "dmul (Fin a) (Fin b) = rnd (a * b)"
| "dmul NaN b = NaN"
| "dmul a NaN = NaN"
| "dmul (Fin a) b = (if a = 0 then NaN else if a > 0 then b else dneg b)"
| "dmul a (Fin b) = (if b = 0 then NaN else if b > 0 then a else dneg a)"
| "dmul PInf b = b"
| "dmul NInf b = dneg b"

fun ddiv :: "double \<Rightarrow> double \<Rightarrow> double" where
  "ddiv (Fin a) (Fin b) =
     (if b = 0 then (if a = 0 then NaN else if a > 0 then PInf else NInf)
      else rnd (a / b))"
| "ddiv NaN b = NaN"
| "ddiv a NaN = NaN"
| "ddiv (Fin a) b = Fin 0"
| "ddiv a (Fin b) = (if b \<ge> 0 then a else dneg a)"
| "ddiv a b = NaN"

text \<open>The comparisons; each is false when an operand is a NaN.\<close>

fun dlt :: "double \<Rightarrow> double \<Rightarrow> bool" where
  "dlt (Fin a) (Fin b) = (a < b)"
| "dlt NaN b = False"
| "dlt a NaN = False"
| "dlt a NInf = False"
| "dlt PInf b = False"
| "dlt a b = True"

definition dle :: "double \<Rightarrow> double \<Rightarrow> bool" where
  "dle a b = (dlt a b \<or> (a = b \<and> a \<noteq> NaN))"

definition dgt :: "double \<Rightarrow> double \<Rightarrow> bool" where
  "dgt a b = dlt b a"

definition dge :: "double \<Rightarrow> double \<Rightarrow> bool" where
  "dge a b = dle b a"

text \<open>\<^verbatim>\<open>!x\<close> for a double \<open>x\<close>: a NaN is not zero.\<close>

definition is_zero :: "double \<Rightarrow> bool" where
  "is_zero a = (a = Fin 0)"

text \<open>
  The conversion of an \<^verbatim>\<open>int\<close> to \<^verbatim>\<open>double\<close>: it is exact, since an \<^verbatim>\<open>int\<close> has 32
  bits and a double 53.
\<close>

definition d_of_int :: "int \<Rightarrow> double" where
  "d_of_int n = Fin (real_of_int n)"

text \<open>
  The cast \<^verbatim>\<open>(int) x\<close> of a double drops the fraction. When the result is no
  \<^verbatim>\<open>int\<close> (a value too large, an infinity, a NaN) the cast is undefined in C; the
  value here is the one that the conversion instruction of x86-64 gives, the least
  \<^verbatim>\<open>int\<close>.
\<close>

definition fits_int :: "double \<Rightarrow> bool" where
  "fits_int a = (case a of Fin x \<Rightarrow> - (2 ^ 31) - 1 < x \<and> x < 2 ^ 31 | _ \<Rightarrow> False)"

definition c_trunc :: "double \<Rightarrow> int" where
  "c_trunc a =
     (case a of
        Fin x \<Rightarrow> if - (2 ^ 31) - 1 < x \<and> x < 2 ^ 31
                 then (if 0 \<le> x then \<lfloor>x\<rfloor> else \<lceil>x\<rceil>)
                 else - (2 ^ 31)
      | _ \<Rightarrow> - (2 ^ 31))"

text \<open>The quotient of two C integers, rounded towards zero.\<close>

definition c_div :: "int \<Rightarrow> int \<Rightarrow> int" where
  "c_div a b = (if (a < 0) = (b < 0) then \<bar>a\<bar> div \<bar>b\<bar> else - (\<bar>a\<bar> div \<bar>b\<bar>))"

subsection \<open>Data\<close>

datatype time_period = TT_NULL | TT_MOVE | TT_TOTAL

datatype time_dimension = TD_GAMES | TD_WALLTIME

text \<open>
  \<^verbatim>\<open>struct time_info\<close> is declared in \<^verbatim>\<open>timeinfo.h\<close>; the fields are those that
  \<^verbatim>\<open>timeinfo.c\<close> reads and writes. The C union \<^verbatim>\<open>len\<close> overlays \<^verbatim>\<open>len.games\<close> and
  the struct \<^verbatim>\<open>len.t\<close>; here each member is a field of its own, so a write to one never
  shows in another (the overlay of the bytes is outside the model). The field
  \<^verbatim>\<open>dim\<close> is \<open>dim_ti\<close>. \<open>timer_start = Fin 0\<close> is the timer that is not set.
\<close>

record time_info =
  period :: time_period
  dim_ti :: time_dimension
  games :: int
  main_time :: double
  byoyomi_time :: double
  byoyomi_periods :: int
  timer_start :: double
  max_time :: double
  recommended_time :: double

text \<open>The ways a run ends other than by returning, each named after its place in the source.\<close>

datatype abort =
    Assert_period_not_null    \<comment> \<open>\<^verbatim>\<open>assert(ti->period != TT_NULL)\<close>\<close>
  | Assert_in_byoyomi_pre     \<comment> \<open>\<^verbatim>\<open>assert(ti->dim == TD_WALLTIME && ti->period == TT_MOVE)\<close>\<close>
  | Assert_recommended_max    \<comment> \<open>\<^verbatim>\<open>assert(recommended_time <= max_time + 0.001)\<close>\<close>
  | Assert_period_move        \<comment> \<open>\<^verbatim>\<open>assert(ti->period == TT_MOVE)\<close>\<close>
  | Assert_fuseki_yose        \<comment> \<open>\<^verbatim>\<open>assert(fuseki_end < yose_start)\<close>\<close>
  | Assert_fuseki_positive    \<comment> \<open>\<^verbatim>\<open>assert(fuseki_end > 0)\<close>\<close>
  | Div_zero_games            \<comment> \<open>\<^verbatim>\<open>ti->len.games /= board_estimated_moves_left(b)\<close>\<close>

subsection \<open>Constants\<close>

text \<open>
  The decimal constants of the source are the doubles nearest to them: \<open>2.0\<close> and
  \<open>3.0\<close> are doubles, \<open>1.1\<close> and \<open>0.001\<close> are not.
\<close>

definition MAX_NET_LAG :: double where
  "MAX_NET_LAG = rnd 2.0"

definition RESERVED_BYOYOMI_PERCENT :: int where
  "RESERVED_BYOYOMI_PERCENT = 15"

definition MAX_MAIN_TIME_EXTENSION :: double where
  "MAX_MAIN_TIME_EXTENSION = rnd 3.0"

definition MAX_BYOYOMI_TIME_EXTENSION :: double where
  "MAX_BYOYOMI_TIME_EXTENSION = rnd 1.1"

text \<open>The tolerance \<^verbatim>\<open>0.001\<close> of the two comparisons with \<^verbatim>\<open>+ 0.001\<close>.\<close>

definition milli :: double where
  "milli = rnd 0.001"

subsection \<open>Controller updates\<close>

text \<open>\<^verbatim>\<open>time_settings\<close>: the gtp command \<^verbatim>\<open>time_settings\<close> or \<^verbatim>\<open>kgs-time_settings\<close>.\<close>

definition time_settings :: "time_info \<Rightarrow> int \<Rightarrow> int \<Rightarrow> int \<Rightarrow> int \<Rightarrow> time_info" where
  "time_settings ti main_time_arg byoyomi_time_arg byoyomi_stones byoyomi_periods_arg =
     (if byoyomi_time_arg > 0 \<and> byoyomi_stones = 0 then
        ti\<lparr>period := TT_NULL\<rparr>
      else
        ti\<lparr>period := TT_TOTAL,
           dim_ti := TD_WALLTIME,
           main_time := d_of_int main_time_arg,
           byoyomi_time :=
             (if byoyomi_stones > 0
              then ddiv (d_of_int byoyomi_time_arg) (d_of_int byoyomi_stones)
              else d_of_int byoyomi_time_arg),
           byoyomi_periods := byoyomi_periods_arg,
           timer_start := Fin 0\<rparr>)"

text \<open>
  \<^verbatim>\<open>time_left\<close>: the gtp command \<^verbatim>\<open>time_left\<close>. The local \<open>stones\<close> is the parameter
  \<^verbatim>\<open>stones_left\<close> after the kgs adjustment.
\<close>

definition time_left :: "time_info \<Rightarrow> int \<Rightarrow> int \<Rightarrow> abort + time_info" where
  "time_left ti time_left_arg stones_left =
     (if period ti = TT_NULL then Inl Assert_period_not_null
      else
        let ti1 = ti\<lparr>dim_ti := TD_WALLTIME\<rparr>;
            kgs = (byoyomi_periods ti1 > 0 \<and> stones_left > 0);
            ti2 = (if kgs then ti1\<lparr>byoyomi_periods := stones_left\<rparr> else ti1);
            stones = (if kgs then 1 else stones_left)
        in if stones = 0 then
             Inr (ti2\<lparr>period := TT_TOTAL, main_time := d_of_int time_left_arg\<rparr>)
           else
             let ti3 = ti2\<lparr>period := TT_MOVE,
                           main_time := Fin 0,
                           byoyomi_time := ddiv (d_of_int time_left_arg) (d_of_int stones)\<rparr>
             in Inr (ti3\<lparr>max_time := d_of_int time_left_arg,
                         recommended_time := byoyomi_time ti3\<rparr>))"

text \<open>\<^verbatim>\<open>time_in_byoyomi\<close>: are we in byoyomi, or should we play as if we were.\<close>

definition time_in_byoyomi :: "time_info \<Rightarrow> abort + bool" where
  "time_in_byoyomi ti =
     (if \<not> (dim_ti ti = TD_WALLTIME \<and> period ti = TT_MOVE) then Inl Assert_in_byoyomi_pre
      else if is_zero (byoyomi_time ti) then Inr False
      else if is_zero (main_time ti) then Inr True
      else if dle (main_time ti) (dadd (byoyomi_time ti) milli) then Inr True
      else Inr False)"

text \<open>\<^verbatim>\<open>time_start_timer\<close>; \<open>now\<close> is the value of \<^verbatim>\<open>time_now()\<close>.\<close>

definition time_start_timer :: "double \<Rightarrow> time_info \<Rightarrow> time_info" where
  "time_start_timer now ti =
     (if period ti \<noteq> TT_NULL \<and> dim_ti ti = TD_WALLTIME then ti\<lparr>timer_start := now\<rparr> else ti)"

subsection \<open>Parsing a time specification\<close>

text \<open>
  A C string is the list of its characters before the terminating NUL; \<^verbatim>\<open>s[0]\<close> of the
  empty string is the NUL, which is no digit, no \<^verbatim>\<open>'_'\<close> and no \<^verbatim>\<open>'='\<close>.
  \<^verbatim>\<open>isdigit\<close>, \<^verbatim>\<open>isspace\<close>, \<^verbatim>\<open>atoi\<close> and \<^verbatim>\<open>atof\<close> are the functions of the C library
  (glibc on x86-64, in the C locale). They convert the longest prefix that has the
  expected form and ignore the rest; with no such prefix they return zero.
\<close>

definition isdigit :: "char \<Rightarrow> bool" where
  "isdigit c = (48 \<le> (of_char c :: nat) \<and> (of_char c :: nat) \<le> 57)"

definition isspace :: "char \<Rightarrow> bool" where
  "isspace c = ((of_char c :: nat) = 32 \<or> (9 \<le> (of_char c :: nat) \<and> (of_char c :: nat) \<le> 13))"

definition isxdigit :: "char \<Rightarrow> bool" where
  "isxdigit c =
     (isdigit c \<or> (65 \<le> (of_char c :: nat) \<and> (of_char c :: nat) \<le> 70)
                \<or> (97 \<le> (of_char c :: nat) \<and> (of_char c :: nat) \<le> 102))"

definition xdigit_val :: "char \<Rightarrow> nat" where
  "xdigit_val c =
     (if isdigit c then of_char c - 48
      else if (of_char c :: nat) \<le> 70 then of_char c - 55
      else of_char c - 87)"

text \<open>The number that a list of digits writes in a base.\<close>

definition digits_val :: "nat \<Rightarrow> string \<Rightarrow> nat" where
  "digits_val base ds = foldl (\<lambda>n c. base * n + xdigit_val c) 0 ds"

text \<open>An optional sign: the sign read and the text after it.\<close>

definition read_sign :: "string \<Rightarrow> bool \<times> string" where
  "read_sign s =
     (case s of
        [] \<Rightarrow> (False, s)
      | c # r \<Rightarrow> if c = CHR ''-'' then (True, r) else if c = CHR ''+'' then (False, r) else (False, s))"

text \<open>
  \<^verbatim>\<open>atoi(s)\<close> is \<^verbatim>\<open>(int) strtol(s, NULL, 10)\<close>: \<^verbatim>\<open>strtol\<close> gives the number that the
  text writes, or the nearest \<^verbatim>\<open>long\<close> (64 bits) when the number is no \<^verbatim>\<open>long\<close>, and
  the conversion to \<^verbatim>\<open>int\<close> keeps the low 32 bits.
\<close>

definition strtol10 :: "string \<Rightarrow> int" where
  "strtol10 s =
     (let (neg, r) = read_sign (dropWhile isspace s);
          n = int (digits_val 10 (takeWhile isdigit r));
          v = (if neg then - n else n)
      in max (- (2 ^ 63)) (min (2 ^ 63 - 1) v))"

definition int_of_long :: "int \<Rightarrow> int" where
  "int_of_long v = (v + 2 ^ 31) mod 2 ^ 32 - 2 ^ 31"

definition atoi :: "string \<Rightarrow> int" where
  "atoi s = int_of_long (strtol10 s)"

text \<open>
  The exponent part of a floating-point text: the letter \<open>e1\<close> or \<open>e2\<close>, an optional
  sign and at least one decimal digit. Without a digit there is no exponent part.
\<close>

definition read_exponent :: "char \<Rightarrow> char \<Rightarrow> string \<Rightarrow> int" where
  "read_exponent e1 e2 s =
     (case s of
        [] \<Rightarrow> 0
      | c # r \<Rightarrow>
          if c = e1 \<or> c = e2 then
            (let (neg, ds) = read_sign r;
                 n = int (digits_val 10 (takeWhile isdigit ds))
             in if neg then - n else n)
          else 0)"

text \<open>\<open>x\<close> times \<open>base\<close> to the power \<open>k\<close>, for an integer \<open>k\<close> of either sign.\<close>

definition scale :: "real \<Rightarrow> nat \<Rightarrow> int \<Rightarrow> real" where
  "scale x base k = (if 0 \<le> k then x * real base ^ nat k else x / real base ^ nat (- k))"

text \<open>
  A mantissa in a base: digits, an optional point, digits. The result is the digits
  before the point, the digits after it, and the text that follows.
\<close>

definition read_mantissa :: "(char \<Rightarrow> bool) \<Rightarrow> string \<Rightarrow> string \<times> string \<times> string" where
  "read_mantissa isdig s =
     (let ip = takeWhile isdig s;
          r1 = dropWhile isdig s
      in case r1 of
           [] \<Rightarrow> (ip, [], r1)
         | c # r2 \<Rightarrow>
             if c = CHR ''.'' then (ip, takeWhile isdig r2, dropWhile isdig r2)
             else (ip, [], r1))"

text \<open>
  \<^verbatim>\<open>atof\<close>, that is \<^verbatim>\<open>strtod\<close>, on decimal and hexadecimal floating-point texts: the
  number that the text writes, rounded to the nearest double; an infinity when the
  number is beyond the largest double. (\<^verbatim>\<open>time_parse\<close> calls it on texts that begin
  with a digit only, so the texts \<^verbatim>\<open>inf\<close> and \<^verbatim>\<open>nan\<close> of \<^verbatim>\<open>strtod\<close> do not occur.)
\<close>

definition decimal_value :: "string \<Rightarrow> real" where
  "decimal_value s =
     (let (ip, fp, r) = read_mantissa isdigit s
      in if ip @ fp = [] then 0
         else scale (real (digits_val 10 (ip @ fp))) 10
                (read_exponent (CHR ''e'') (CHR ''E'') r - int (length fp)))"

definition hex_value :: "string \<Rightarrow> real option" where
  "hex_value s =
     (let (ip, fp, r) = read_mantissa isxdigit s
      in if ip @ fp = [] then None
         else Some (scale (real (digits_val 16 (ip @ fp))) 2
                (read_exponent (CHR ''p'') (CHR ''P'') r - 4 * int (length fp))))"

definition strtod_value :: "string \<Rightarrow> real" where
  "strtod_value s =
     (let (neg, r) = read_sign (dropWhile isspace s);
          hex = (case r of
                   c0 # cx # r' \<Rightarrow>
                     if c0 = CHR ''0'' \<and> (cx = CHR ''x'' \<or> cx = CHR ''X'') then hex_value r' else None
                 | _ \<Rightarrow> None);
          v = (case hex of Some x \<Rightarrow> x | None \<Rightarrow> decimal_value r)
      in if neg then - v else v)"

definition atof :: "string \<Rightarrow> double" where
  "atof s = rnd (strtod_value s)"

text \<open>
  \<^verbatim>\<open>time_parse\<close>: the flag returned and the record as the call leaves it. On
  \<^verbatim>\<open>return false\<close> the field \<^verbatim>\<open>period\<close> has been written already.
\<close>

definition time_parse :: "time_info \<Rightarrow> string \<Rightarrow> bool \<times> time_info" where
  "time_parse ti s =
     (let (ti1, s1) =
            (case s of
               [] \<Rightarrow> (ti\<lparr>period := TT_MOVE\<rparr>, s)
             | c # r \<Rightarrow>
                 if c = CHR ''_'' then (ti\<lparr>period := TT_TOTAL\<rparr>, r)
                 else (ti\<lparr>period := TT_MOVE\<rparr>, s))
      in case s1 of
           [] \<Rightarrow> (False, ti1)
         | c # r \<Rightarrow>
             if c = CHR ''='' then
               (True, ti1\<lparr>dim_ti := TD_GAMES, games := atoi r\<rparr>)
             else if \<not> isdigit c then (False, ti1)
             else
               (True, ti1\<lparr>dim_ti := TD_WALLTIME,
                          main_time := atof s1,
                          byoyomi_time := Fin 0,
                          byoyomi_periods := 0,
                          timer_start := Fin 0\<rparr>))"



subsection \<open>Stop conditions\<close>

text \<open>
  \<^verbatim>\<open>struct board\<close> and \<^verbatim>\<open>board_estimated_moves_left\<close> are declared in \<^verbatim>\<open>board.h\<close>.
  \<^verbatim>\<open>time_stop_conditions\<close> reads three values of the board: \<^verbatim>\<open>board_size(b)\<close>,
  \<^verbatim>\<open>b->moves\<close> and \<^verbatim>\<open>board_estimated_moves_left(b)\<close>, which does not change between
  its calls since the board does not. The constant \<^verbatim>\<open>MIN_MOVES_LEFT\<close> of \<^verbatim>\<open>board.h\<close> is
  the parameter \<open>min_moves_left\<close>.
\<close>

record board =
  board_size :: int
  moves :: int
  board_estimated_moves_left :: int

text \<open>
  \<^verbatim>\<open>struct time_stop\<close>: each of \<^verbatim>\<open>desired\<close> and \<^verbatim>\<open>worst\<close> is a number of playouts
  or a time.
\<close>

datatype stop_limit = Playouts int | Time double

record time_stop =
  desired :: stop_limit
  worst :: stop_limit

text \<open>The branch \<^verbatim>\<open>ti->dim == TD_GAMES\<close>.\<close>

definition stop_games :: "time_info \<Rightarrow> board \<Rightarrow> abort + time_info \<times> time_stop" where
  "stop_games ti b =
     (if period ti = TT_TOTAL then
        (if board_estimated_moves_left b = 0 then Inl Div_zero_games
         else
           let ti1 = ti\<lparr>period := TT_MOVE,
                         games := c_div (games ti) (board_estimated_moves_left b)\<rparr>
           in Inr (ti1, \<lparr>desired = Playouts (games ti1), worst = Playouts (games ti1)\<rparr>))
      else Inr (ti, \<lparr>desired = Playouts (games ti), worst = Playouts (games ti)\<rparr>))"

text \<open>Make sure \<^verbatim>\<open>timer_start\<close> is set up, adjust \<^verbatim>\<open>net_lag\<close>: the record and the lag.\<close>

definition setup_timer :: "double \<Rightarrow> time_info \<Rightarrow> time_info \<times> double" where
  "setup_timer now ti =
     (if is_zero (timer_start ti) then (ti\<lparr>timer_start := now\<rparr>, MAX_NET_LAG)
      else (ti, dadd MAX_NET_LAG (dsub now (timer_start ti))))"

text \<open>Set up initial recommendations.\<close>

definition initial_recommendations :: "time_info \<Rightarrow> time_info" where
  "initial_recommendations ti =
     (if \<not> is_zero (main_time ti)
      then ti\<lparr>max_time := main_time ti, recommended_time := main_time ti\<rparr>
      else ti)"

text \<open>
  The branch \<^verbatim>\<open>byoyomi_time > 0\<close> of the conversion, first part: the byoyomi periods
  that count as main time.
\<close>

definition reserve_byoyomi :: "time_info \<Rightarrow> time_info" where
  "reserve_byoyomi ti =
     (let ti_a = (if byoyomi_periods ti > 2
                  then ti\<lparr>max_time :=
                            dadd (max_time ti)
                              (dmul (d_of_int (byoyomi_periods ti - 2)) (byoyomi_time ti))\<rparr>
                  else ti);
          ti_b = ti_a\<lparr>max_time := dadd (max_time ti_a) (byoyomi_time ti_a)\<rparr>
      in ti_b\<lparr>recommended_time := max_time ti_b\<rparr>)"

text \<open>
  Second part: the number of moves over which the time is spread, when \<^verbatim>\<open>max_time\<close>
  already counts the byoyomi periods.
\<close>

definition main_time_moves :: "time_info \<Rightarrow> double \<Rightarrow> int \<Rightarrow> int" where
  "main_time_moves ti net_lag moves_left =
     (let actual_byoyomi = dsub (byoyomi_time ti) net_lag
      in if dgt actual_byoyomi (Fin 0) then
           let main_moves = c_trunc (ddiv (max_time ti) actual_byoyomi);
               m1 = (if moves_left > main_moves then main_moves else moves_left)
           in if m1 \<le> 0 then 1 else m1
         else moves_left)"

text \<open>
  The block \<^verbatim>\<open>if (ti->period == TT_TOTAL) { ... }\<close> of the wall-time branch, up to its
  last two statements: the record and the value of \<^verbatim>\<open>moves_left\<close>.
\<close>

definition convert_total :: "time_info \<Rightarrow> double \<Rightarrow> int \<Rightarrow> time_info \<times> int" where
  "convert_total ti net_lag est =
     (if dgt (byoyomi_time ti) (Fin 0) then
        let ti1 = reserve_byoyomi ti
        in (ti1, main_time_moves ti1 net_lag est)
      else (ti, est))"

text \<open>The whole block: the division by \<^verbatim>\<open>moves_left\<close> has no test for zero.\<close>

definition total_to_move :: "time_info \<Rightarrow> double \<Rightarrow> int \<Rightarrow> time_info" where
  "total_to_move ti net_lag est =
     (let (ti1, moves_left) = convert_total ti net_lag est
      in ti1\<lparr>period := TT_MOVE,
             recommended_time := ddiv (recommended_time ti1) (d_of_int moves_left)\<rparr>)"

text \<open>Do not leave negative times, and the assertion that follows.\<close>

definition clamp_times :: "time_info \<Rightarrow> abort + time_info" where
  "clamp_times ti =
     (let ti1 = (if dlt (recommended_time ti) (Fin 0) then ti\<lparr>recommended_time := Fin 0\<rparr> else ti);
          ti2 = (if dlt (max_time ti1) (Fin 0) then ti1\<lparr>max_time := Fin 0\<rparr> else ti1)
      in if dle (recommended_time ti2) (dadd (max_time ti2) milli) then Inr ti2
         else Inl Assert_recommended_max)"

text \<open>Use a larger safety margin if we risk losing on time on this move: the new lag.\<close>

definition safety_lag :: "time_info \<Rightarrow> double \<Rightarrow> double" where
  "safety_lag ti net_lag =
     (let safe_margin =
            ddiv (dmul (d_of_int RESERVED_BYOYOMI_PERCENT) (byoyomi_time ti)) (d_of_int 100)
      in if dgt safe_margin MAX_NET_LAG
            \<and> dge (recommended_time ti) (dsub (max_time ti) net_lag)
         then safe_margin else net_lag)"

text \<open>
  The first half of the wall-time branch: transform the record to \<^verbatim>\<open>TT_MOVE\<close> and set
  up the recommended and maximal time and the lag.
\<close>

definition stop_prepare :: "double \<Rightarrow> time_info \<Rightarrow> board \<Rightarrow> abort + time_info \<times> double" where
  "stop_prepare now ti b =
     (let (ti1, net_lag) = setup_timer now ti;
          ti2 = initial_recommendations ti1;
          ti3 = (if period ti2 = TT_TOTAL
                 then total_to_move ti2 net_lag (board_estimated_moves_left b)
                 else ti2)
      in case clamp_times ti3 of
           Inl e \<Rightarrow> Inl e
         | Inr ti4 \<Rightarrow>
             let net_lag1 = safety_lag ti4 net_lag
             in if period ti4 \<noteq> TT_MOVE then Inl Assert_period_move
                else Inr (ti4, net_lag1))"

text \<open>
  The moves left when yose starts, \<^verbatim>\<open>left_at_yose_start\<close>: only the moves we have to
  play ourselves count, and there are \<^verbatim>\<open>MIN_MOVES_LEFT\<close> at least.
\<close>

definition left_at_yose_start :: "int \<Rightarrow> board \<Rightarrow> int \<Rightarrow> int" where
  "left_at_yose_start min_moves_left b yose_start =
     (let moves_to_yose = c_div (yose_start - moves b) 2;
          l0 = board_estimated_moves_left b - moves_to_yose
      in if l0 < min_moves_left then min_moves_left else l0)"

text \<open>
  The desired time in main time, before the limits are applied: the branch
  \<^verbatim>\<open>else\<close> of \<^verbatim>\<open>if (time_in_byoyomi(ti))\<close>.
\<close>

definition main_time_desired :: "int \<Rightarrow> time_info \<Rightarrow> board \<Rightarrow> int \<Rightarrow> int \<Rightarrow> abort + double" where
  "main_time_desired min_moves_left ti b fuseki_end_arg yose_start_arg =
     (let desired_time = recommended_time ti;
          bsize = (board_size b - 2) * (board_size b - 2);
          fuseki_end = c_div (fuseki_end_arg * bsize) 100;
          yose_start = c_div (yose_start_arg * bsize) 100
      in if \<not> fuseki_end < yose_start then Inl Assert_fuseki_yose
         else if moves b < yose_start then
           let longest_time =
                 ddiv (max_time ti) (d_of_int (left_at_yose_start min_moves_left b yose_start))
           in if dlt longest_time desired_time then Inr desired_time
              else if moves b < fuseki_end then
                (if \<not> fuseki_end > 0 then Inl Assert_fuseki_positive
                 else Inr (dadd desired_time
                             (ddiv (dmul (dsub longest_time desired_time) (d_of_int (moves b)))
                                (d_of_int fuseki_end))))
              else Inr longest_time
         else Inr desired_time)"

text \<open>
  The second half: the desired and the worst time for the move, as durations, before
  the two limits of the end are applied.
\<close>

definition raw_limits :: "int \<Rightarrow> time_info \<Rightarrow> board \<Rightarrow> int \<Rightarrow> int \<Rightarrow> abort + double \<times> double" where
  "raw_limits min_moves_left ti b fuseki_end yose_start =
     (case time_in_byoyomi ti of
        Inl e \<Rightarrow> Inl e
      | Inr byo \<Rightarrow>
          if byo
          then Inr (dmul (recommended_time ti) (dsub (d_of_int 2) MAX_BYOYOMI_TIME_EXTENSION),
                    dmul (recommended_time ti) MAX_BYOYOMI_TIME_EXTENSION)
          else (case main_time_desired min_moves_left ti b fuseki_end yose_start of
                  Inl e \<Rightarrow> Inl e
                | Inr d \<Rightarrow> Inr (d, dmul d MAX_MAIN_TIME_EXTENSION)))"

text \<open>\<^verbatim>\<open>worst_time\<close> limited by \<^verbatim>\<open>max_time\<close>, then \<^verbatim>\<open>desired_time\<close> by \<^verbatim>\<open>worst_time\<close>.\<close>

definition limit_times :: "time_info \<Rightarrow> double \<times> double \<Rightarrow> double \<times> double" where
  "limit_times ti dw =
     (let (desired_time, worst_time) = dw;
          w = (if dgt worst_time (max_time ti) then max_time ti else worst_time);
          d = (if dgt desired_time w then w else desired_time)
      in (d, w))"

definition stop_limits :: "int \<Rightarrow> time_info \<Rightarrow> board \<Rightarrow> int \<Rightarrow> int \<Rightarrow> abort + double \<times> double" where
  "stop_limits min_moves_left ti b fuseki_end yose_start =
     (case raw_limits min_moves_left ti b fuseki_end yose_start of
        Inl e \<Rightarrow> Inl e
      | Inr dw \<Rightarrow> Inr (limit_times ti dw))"

text \<open>
  The wall-time branch up to the durations: the record, the lag, the desired and the
  worst duration.
\<close>

definition stop_walltime ::
  "int \<Rightarrow> double \<Rightarrow> time_info \<Rightarrow> board \<Rightarrow> int \<Rightarrow> int
     \<Rightarrow> abort + time_info \<times> double \<times> double \<times> double" where
  "stop_walltime min_moves_left now ti b fuseki_end yose_start =
     (case stop_prepare now ti b of
        Inl e \<Rightarrow> Inl e
      | Inr (ti1, net_lag) \<Rightarrow>
          (case stop_limits min_moves_left ti1 b fuseki_end yose_start of
             Inl e \<Rightarrow> Inl e
           | Inr (d, w) \<Rightarrow> Inr (ti1, net_lag, d, w)))"

text \<open>\<^verbatim>\<open>time_stop_conditions\<close>: the record as the call leaves it and \<^verbatim>\<open>*stop\<close>.\<close>

definition time_stop_conditions ::
  "int \<Rightarrow> double \<Rightarrow> time_info \<Rightarrow> board \<Rightarrow> int \<Rightarrow> int \<Rightarrow> abort + time_info \<times> time_stop" where
  "time_stop_conditions min_moves_left now ti b fuseki_end yose_start =
     (if period ti = TT_NULL then Inl Assert_period_not_null
      else if dim_ti ti = TD_GAMES then stop_games ti b
      else
        (case stop_walltime min_moves_left now ti b fuseki_end yose_start of
           Inl e \<Rightarrow> Inl e
         | Inr (ti1, net_lag, d, w) \<Rightarrow>
             Inr (ti1, \<lparr>desired = Time (dsub (dadd (timer_start ti1) d) net_lag),
                        worst = Time (dsub (dadd (timer_start ti1) w) net_lag)\<rparr>)))"

subsection \<open>Predicates of the statements\<close>


text \<open>A double that is a number, and one that is a number within the binary64 range.\<close>

definition is_finite :: "double \<Rightarrow> bool" where
  "is_finite a = (case a of Fin x \<Rightarrow> True | _ \<Rightarrow> False)"

definition finite_double :: "double \<Rightarrow> bool" where
  "finite_double a = (case a of Fin x \<Rightarrow> \<bar>x\<bar> \<le> DBL_MAX | _ \<Rightarrow> False)"

section \<open>Properties\<close>

subsection \<open>Unfolding for concrete inputs\<close>

lemmas parse_defs = time_parse_def atof_def strtod_value_def atoi_def strtol10_def int_of_long_def
  read_sign_def isspace_def hex_value_def decimal_value_def read_mantissa_def isdigit_def
  isxdigit_def digits_val_def xdigit_val_def read_exponent_def scale_def

lemmas parse_defs0 = time_parse_def atof_def strtod_value_def atoi_def strtol10_def int_of_long_def
  read_sign_def isspace_def hex_value_def decimal_value_def read_mantissa_def isdigit_def
  isxdigit_def digits_val_def xdigit_val_def read_exponent_def

lemmas stop_defs = time_stop_conditions_def stop_walltime_def stop_prepare_def stop_limits_def
  raw_limits_def limit_times_def
  main_time_desired_def left_at_yose_start_def time_in_byoyomi_def setup_timer_def initial_recommendations_def
  total_to_move_def convert_total_def reserve_byoyomi_def main_time_moves_def clamp_times_def
  safety_lag_def stop_games_def c_div_def c_trunc_def MAX_NET_LAG_def
  RESERVED_BYOYOMI_PERCENT_def MAX_MAIN_TIME_EXTENSION_def is_zero_def d_of_int_def
  dgt_def dge_def dsub_def dneg_def Let_def

subsection \<open>Rounding to binary64\<close>

text \<open>
  The facts about \<open>round53\<close> and \<open>rnd\<close> that the proofs below use: a number with at most
  53 binary digits is its own rounding, rounding is monotone, and the rounding of a
  number of known binary exponent is computed by \<open>round_even\<close>.
\<close>

lemma pow2_powr: "pow2 e = 2 powr (real_of_int e)"
proof (cases "0 \<le> e")
  case True
  then have "2 powr (real_of_int e) = 2 powr (real (nat e))" by simp
  also have "\<dots> = 2 ^ nat e" by (simp add: powr_realpow)
  finally show ?thesis using True by (simp add: pow2_def)
next
  case False
  then have "2 powr (real_of_int e) = 2 powr (- real (nat (- e)))" by simp
  also have "\<dots> = 1 / 2 powr (real (nat (- e)))" by (simp add: powr_minus divide_inverse)
  also have "\<dots> = 1 / 2 ^ nat (- e)" by (simp add: powr_realpow)
  finally show ?thesis using False by (simp add: pow2_def)
qed

lemma pow2_pos [simp]: "0 < pow2 e"
  by (simp add: pow2_powr)

lemma pow2_add: "pow2 (a + b) = pow2 a * pow2 b"
  by (simp add: pow2_powr powr_add)

lemma pow2_mono: "a \<le> b \<Longrightarrow> pow2 a \<le> pow2 b"
  by (simp add: pow2_powr)

lemma pow2_nonneg_int: "0 \<le> e \<Longrightarrow> pow2 e = of_int (2 ^ nat e)"
  by (simp add: pow2_def)

lemma pow2_diff: "pow2 a / pow2 b = pow2 (a - b)"
proof -
  have "pow2 a = pow2 (a - b) * pow2 b" using pow2_add [of "a - b" b] by simp
  moreover have "pow2 b \<noteq> 0" using pow2_pos [of b] by linarith
  ultimately show ?thesis by simp
qed

lemma ilog2_bounds:
  assumes "0 < x"
  shows "pow2 \<lfloor>log 2 x\<rfloor> \<le> x" and "x < pow2 (\<lfloor>log 2 x\<rfloor> + 1)"
proof -
  have "real_of_int \<lfloor>log 2 x\<rfloor> \<le> log 2 x" by simp
  then show "pow2 \<lfloor>log 2 x\<rfloor> \<le> x"
    using assms le_log_iff [of 2 x "real_of_int \<lfloor>log 2 x\<rfloor>"] by (simp add: pow2_powr)
  have "log 2 x < real_of_int (\<lfloor>log 2 x\<rfloor> + 1)" by linarith
  then show "x < pow2 (\<lfloor>log 2 x\<rfloor> + 1)"
    using assms log_less_iff [of 2 x "real_of_int (\<lfloor>log 2 x\<rfloor> + 1)"] by (simp add: pow2_powr)
qed

lemma ilog2_unique:
  assumes "pow2 k \<le> x" and "x < pow2 (k + 1)"
  shows "\<lfloor>log 2 x\<rfloor> = k"
proof -
  have pos: "0 < x" using assms(1) pow2_pos [of k] by linarith
  have "real_of_int k \<le> log 2 x"
    using assms(1) pos by (simp add: pow2_powr le_log_iff)
  moreover have "log 2 x < real_of_int k + 1"
    using assms(2) pos by (simp add: pow2_powr log_less_iff)
  ultimately show ?thesis by linarith
qed

lemma ilog2_mono: "0 < x \<Longrightarrow> x \<le> y \<Longrightarrow> \<lfloor>log 2 x\<rfloor> \<le> \<lfloor>log 2 y\<rfloor>"
  by (intro floor_mono) simp

lemma ulp_exp_mono: "0 < \<bar>x\<bar> \<Longrightarrow> \<bar>x\<bar> \<le> \<bar>y\<bar> \<Longrightarrow> ulp_exp x \<le> ulp_exp y"
  using ilog2_mono [of "\<bar>x\<bar>" "\<bar>y\<bar>"] by (simp add: ulp_exp_def)

lemma round_even_of_int [simp]: "round_even (of_int n) = n"
  by (simp add: round_even_def)

lemma round_even_range: "\<lfloor>y\<rfloor> \<le> round_even y" "round_even y \<le> \<lfloor>y\<rfloor> + 1"
  by (simp_all add: round_even_def Let_def)

lemma round_even_mono:
  assumes "y1 \<le> y2"
  shows "round_even y1 \<le> round_even y2"
proof (cases "\<lfloor>y1\<rfloor> = \<lfloor>y2\<rfloor>")
  case True
  then have "y1 - of_int \<lfloor>y1\<rfloor> \<le> y2 - of_int \<lfloor>y2\<rfloor>" using assms by simp
  then show ?thesis using True by (auto simp add: round_even_def Let_def)
next
  case False
  then have "\<lfloor>y1\<rfloor> < \<lfloor>y2\<rfloor>" using floor_mono [OF assms] by linarith
  then show ?thesis using round_even_range(2) [of y1] round_even_range(1) [of y2] by linarith
qed

lemma round_even_ge_int: "of_int n \<le> y \<Longrightarrow> n \<le> round_even y"
  using round_even_mono [of "of_int n" y] by simp

lemma round_even_le_int: "y \<le> of_int n \<Longrightarrow> round_even y \<le> n"
  using round_even_mono [of y "of_int n"] by simp

lemma pow2_nonneg [simp]: "0 \<le> pow2 e"
  using pow2_pos [of e] by linarith

lemma pow2_nonzero [simp]: "pow2 e \<noteq> 0"
  using pow2_pos [of e] by linarith

lemma pow2_abs [simp]: "\<bar>pow2 e\<bar> = pow2 e"
  by simp

lemma div_pow2_mono: "x \<le> y \<Longrightarrow> x / pow2 e \<le> y / pow2 e"
  by (rule divide_right_mono) simp_all

lemma round53_zero [simp]: "round53 0 = 0"
  by (simp add: round53_def)

lemma round53_minus: "round53 (- x) = - round53 x"
  by (simp add: round53_def ulp_exp_def sgn_minus)

lemma round53_pos:
  "0 < x \<Longrightarrow> round53 x = of_int (round_even (x / pow2 (ulp_exp x))) * pow2 (ulp_exp x)"
  by (simp add: round53_def)

lemma round53_nonneg: "0 \<le> x \<Longrightarrow> 0 \<le> round53 x"
proof (cases "x = 0")
  case False
  assume "0 \<le> x"
  then have pos: "0 < x" using False by simp
  have "0 / pow2 (ulp_exp x) \<le> x / pow2 (ulp_exp x)" using pos by (intro div_pow2_mono) simp
  then have "0 \<le> x / pow2 (ulp_exp x)" by simp
  then have "0 \<le> round_even (x / pow2 (ulp_exp x))"
    using round_even_ge_int [of 0 "x / pow2 (ulp_exp x)"] by simp
  then show ?thesis using pos by (simp add: round53_pos)
qed simp

lemma ulp_exp_le:
  assumes "x \<noteq> 0" and "\<bar>x\<bar> < pow2 (e + 53)" and "- 1074 \<le> e"
  shows "ulp_exp x \<le> e"
proof -
  have pos: "0 < \<bar>x\<bar>" using assms(1) by simp
  have "pow2 \<lfloor>log 2 \<bar>x\<bar>\<rfloor> < pow2 (e + 53)"
    using ilog2_bounds(1) [OF pos] assms(2) by linarith
  then have "\<lfloor>log 2 \<bar>x\<bar>\<rfloor> < e + 53"
    using pow2_mono [of "e + 53" "\<lfloor>log 2 \<bar>x\<bar>\<rfloor>"] by linarith
  then show ?thesis using assms(3) by (simp add: ulp_exp_def)
qed

lemma round53_exact:
  assumes "x = of_int m * pow2 e" and "\<bar>m\<bar> < 2 ^ 53" and "- 1074 \<le> e"
  shows "round53 x = x"
proof (cases "x = 0")
  case False
  have "\<bar>x\<bar> = of_int \<bar>m\<bar> * pow2 e" using assms(1) by (simp add: abs_mult)
  moreover have "real_of_int \<bar>m\<bar> < 2 ^ 53"
    using assms(2) by (metis of_int_less_iff of_int_numeral of_int_power)
  ultimately have "\<bar>x\<bar> < 2 ^ 53 * pow2 e" by simp
  also have "\<dots> = pow2 (e + 53)"
  proof -
    have "pow2 53 = 2 ^ 53" by (simp add: pow2_def)
    then show ?thesis using pow2_add [of e 53] by simp
  qed
  finally have le: "ulp_exp x \<le> e" using ulp_exp_le [OF False _ assms(3)] by simp
  define d where "d = e - ulp_exp x"
  have d: "0 \<le> d" using le by (simp add: d_def)
  have "pow2 e = pow2 d * pow2 (ulp_exp x)" using pow2_add [of d "ulp_exp x"] by (simp add: d_def)
  then have "\<bar>x\<bar> / pow2 (ulp_exp x) = of_int \<bar>m\<bar> * pow2 d"
    using \<open>\<bar>x\<bar> = of_int \<bar>m\<bar> * pow2 e\<close> by simp
  also have "\<dots> = of_int (\<bar>m\<bar> * 2 ^ nat d)" using d by (simp add: pow2_def)
  finally have q: "\<bar>x\<bar> / pow2 (ulp_exp x) = of_int (\<bar>m\<bar> * 2 ^ nat d)" .
  have "round53 x = sgn x * (\<bar>x\<bar> / pow2 (ulp_exp x)) * pow2 (ulp_exp x)"
    using False by (simp only: round53_def q round_even_of_int if_False)
  also have "\<dots> = sgn x * \<bar>x\<bar>" by simp
  also have "\<dots> = x" by (simp add: sgn_mult_abs)
  finally show ?thesis .
qed simp

lemma round53_of_int: "\<bar>n\<bar> < 2 ^ 53 \<Longrightarrow> round53 (of_int n) = of_int n"
  using round53_exact [of "of_int n" n 0] by (simp add: pow2_def)

lemma round53_mono_pos:
  assumes "0 < x" and "x \<le> y"
  shows "round53 x \<le> round53 y"
proof -
  have ypos: "0 < y" using assms by linarith
  have le: "ulp_exp x \<le> ulp_exp y" using ulp_exp_mono [of x y] assms by simp
  show ?thesis
  proof (cases "ulp_exp x = ulp_exp y")
    case True
    have "x / pow2 (ulp_exp y) \<le> y / pow2 (ulp_exp y)"
      using assms(2) by (rule div_pow2_mono)
    then have "round_even (x / pow2 (ulp_exp y)) \<le> round_even (y / pow2 (ulp_exp y))"
      by (rule round_even_mono)
    then have "real_of_int (round_even (x / pow2 (ulp_exp y))) * pow2 (ulp_exp y)
        \<le> real_of_int (round_even (y / pow2 (ulp_exp y))) * pow2 (ulp_exp y)"
      by (simp add: mult_right_mono)
    then show ?thesis using assms(1) ypos True by (simp add: round53_pos)
  next
    case False
    then have lt: "ulp_exp x < ulp_exp y" using le by simp
    define kx where "kx = \<lfloor>log 2 x\<rfloor>"
    define ky where "ky = \<lfloor>log 2 y\<rfloor>"
    have ex: "ulp_exp x = max kx (- 1022) - 52" using assms(1) by (simp add: ulp_exp_def kx_def)
    have ey: "ulp_exp y = max ky (- 1022) - 52" using ypos by (simp add: ulp_exp_def ky_def)
    have ky: "ulp_exp y = ky - 52" and kxy: "kx + 1 \<le> ky" and exy: "ulp_exp x + 53 \<le> ky"
      using lt ex ey by auto
    define B where "B = pow2 ky"
    have xB: "x \<le> B"
      using ilog2_bounds(2) [OF assms(1)] pow2_mono [OF kxy] by (simp add: kx_def B_def)
    have By: "B \<le> y" using ilog2_bounds(1) [OF ypos] by (simp add: ky_def B_def)
    \<comment> \<open>the boundary is a multiple of both units\<close>
    have B1: "B / pow2 (ulp_exp x) = of_int (2 ^ nat (ky - ulp_exp x))"
      using exy by (simp add: B_def pow2_diff pow2_nonneg_int)
    have B2: "B / pow2 (ulp_exp y) = of_int (2 ^ nat 52)"
      using ky by (simp add: B_def pow2_diff pow2_nonneg_int)
    have "x / pow2 (ulp_exp x) \<le> B / pow2 (ulp_exp x)"
      using xB by (rule div_pow2_mono)
    then have "round_even (x / pow2 (ulp_exp x)) \<le> 2 ^ nat (ky - ulp_exp x)"
      unfolding B1 by (rule round_even_le_int)
    then have "real_of_int (round_even (x / pow2 (ulp_exp x))) \<le> B / pow2 (ulp_exp x)"
      unfolding B1 by (simp only: of_int_le_iff)
    then have r1: "round53 x \<le> B"
      using assms(1) by (simp add: round53_pos pos_le_divide_eq)
    have "B / pow2 (ulp_exp y) \<le> y / pow2 (ulp_exp y)"
      using By by (rule div_pow2_mono)
    then have "2 ^ nat 52 \<le> round_even (y / pow2 (ulp_exp y))"
      unfolding B2 by (rule round_even_ge_int)
    then have "B / pow2 (ulp_exp y) \<le> real_of_int (round_even (y / pow2 (ulp_exp y)))"
      unfolding B2 by (simp only: of_int_le_iff)
    then have r2: "B \<le> round53 y"
      using ypos by (simp add: round53_pos pos_divide_le_eq)
    show ?thesis using r1 r2 by linarith
  qed
qed

lemma round53_mono:
  assumes "x \<le> y"
  shows "round53 x \<le> round53 y"
proof -
  consider "0 < x" | "x \<le> 0" "0 \<le> y" | "y < 0" by linarith
  then show ?thesis
  proof cases
    case 1
    then show ?thesis using assms by (rule round53_mono_pos)
  next
    case 2
    have "round53 x \<le> 0" using round53_nonneg [of "- x"] 2(1) by (simp add: round53_minus)
    moreover have "0 \<le> round53 y" using 2(2) by (rule round53_nonneg)
    ultimately show ?thesis by linarith
  next
    case 3
    have "round53 (- y) \<le> round53 (- x)" using round53_mono_pos [of "- y" "- x"] 3 assms by simp
    then show ?thesis by (simp add: round53_minus)
  qed
qed

lemma DBL_MAX_pos: "0 < DBL_MAX"
  by (simp add: DBL_MAX_def)

lemma rnd_not_NaN [simp]: "rnd x \<noteq> NaN"
  by (simp add: rnd_def Let_def)

lemma rnd_Fin: "\<bar>round53 x\<bar> \<le> DBL_MAX \<Longrightarrow> rnd x = Fin (round53 x)"
  by (auto simp add: rnd_def Let_def)

lemma rnd_exact: "round53 x = x \<Longrightarrow> \<bar>x\<bar> \<le> DBL_MAX \<Longrightarrow> rnd x = Fin x"
  using rnd_Fin [of x] by simp

lemma int_below_DBL_MAX: "\<bar>n\<bar> < 2 ^ 53 \<Longrightarrow> \<bar>real_of_int n\<bar> \<le> DBL_MAX"
proof -
  assume "\<bar>n\<bar> < 2 ^ 53"
  then have "real_of_int \<bar>n\<bar> < 2 ^ 53"
    by (metis of_int_less_iff of_int_numeral of_int_power)
  moreover have "(2::real) ^ 53 \<le> DBL_MAX" by (simp add: DBL_MAX_def)
  ultimately show ?thesis by simp
qed

lemma rnd_of_int: "\<bar>n\<bar> < 2 ^ 53 \<Longrightarrow> rnd (real_of_int n) = Fin (real_of_int n)"
  by (simp add: rnd_exact round53_of_int int_below_DBL_MAX)

lemma rnd_numeral [simp]:
  "\<bar>numeral w :: int\<bar> < 2 ^ 53 \<Longrightarrow> rnd (numeral w) = Fin (numeral w)"
  using rnd_of_int [of "numeral w"] by simp

lemma rnd_neg_numeral [simp]:
  "\<bar>numeral w :: int\<bar> < 2 ^ 53 \<Longrightarrow> rnd (- numeral w) = Fin (- numeral w)"
  using rnd_of_int [of "- numeral w"] by simp

lemma rnd_zero [simp]: "rnd 0 = Fin 0"
  using rnd_of_int [of 0] by simp

lemma rnd_one [simp]: "rnd 1 = Fin 1"
  using rnd_of_int [of 1] by simp

text \<open>A number with at most 53 binary digits above the unit \<open>2 ^ e\<close> is a double.\<close>

lemma rnd_dyadic:
  assumes "x = of_int m * pow2 e" and "\<bar>m\<bar> < 2 ^ 53" and "- 1074 \<le> e" and "\<bar>x\<bar> \<le> DBL_MAX"
  shows "rnd x = Fin x"
  using round53_exact [OF assms(1-3)] assms(4) by (rule rnd_exact)

lemma rnd_half [simp]:
  assumes "\<bar>numeral w :: int\<bar> < 2 ^ 53"
  shows "rnd (numeral w / 2) = Fin (numeral w / 2)"
proof -
  have "\<bar>real_of_int (numeral w)\<bar> \<le> DBL_MAX" using assms by (rule int_below_DBL_MAX)
  then have "\<bar>numeral w / 2 :: real\<bar> \<le> DBL_MAX" using DBL_MAX_pos by simp
  then show ?thesis
    using assms by (intro rnd_dyadic [where m = "numeral w" and e = "- 1"]) (simp_all add: pow2_def)
qed

lemma dle_Fin [simp]: "dle (Fin a) (Fin b) = (a \<le> b)"
  by (auto simp add: dle_def)

lemma dle_refl: "a \<noteq> NaN \<Longrightarrow> dle a a"
  by (simp add: dle_def)

lemma dle_PInf [simp]: "dle a PInf = (a \<noteq> NaN)"
  by (cases a) (simp_all add: dle_def)

lemma NInf_dle [simp]: "dle NInf a = (a \<noteq> NaN)"
  by (cases a) (simp_all add: dle_def)

lemma dle_NaN [simp]: "\<not> dle NaN a" "\<not> dle a NaN"
  by (cases a; simp add: dle_def)+

lemma dle_rnd_mono: "x \<le> y \<Longrightarrow> dle (rnd x) (rnd y)"
  using round53_mono [of x y] DBL_MAX_pos by (auto simp add: rnd_def Let_def)

lemma round53_eval:
  assumes "pow2 k \<le> \<bar>x\<bar>" and "\<bar>x\<bar> < pow2 (k + 1)" and "- 1022 \<le> k"
  shows "round53 x = sgn x * of_int (round_even (\<bar>x\<bar> / pow2 (k - 52))) * pow2 (k - 52)"
proof -
  have "0 < \<bar>x\<bar>" using assms(1) pow2_pos [of k] by linarith
  then have "x \<noteq> 0" by simp
  moreover have "ulp_exp x = k - 52"
    using ilog2_unique [OF assms(1,2)] assms(3) by (simp add: ulp_exp_def)
  ultimately show ?thesis by (simp add: round53_def)
qed

lemma rnd_between:
  assumes "a \<le> x" and "x \<le> b" and "round53 a = a" and "round53 b = b"
    and "\<bar>a\<bar> \<le> DBL_MAX" and "\<bar>b\<bar> \<le> DBL_MAX"
  shows "\<exists>c. rnd x = Fin c \<and> a \<le> c \<and> c \<le> b"
proof -
  have "a \<le> round53 x" using round53_mono [OF assms(1)] assms(3) by simp
  moreover have "round53 x \<le> b" using round53_mono [OF assms(2)] assms(4) by simp
  ultimately show ?thesis using assms(5,6) rnd_Fin [of x] by auto
qed

lemma rnd_eval:
  assumes "pow2 k \<le> \<bar>x\<bar>" and "\<bar>x\<bar> < pow2 (k + 1)" and "- 1022 \<le> k" and "k \<le> 1022"
  shows "rnd x = Fin (sgn x * of_int (round_even (\<bar>x\<bar> / pow2 (k - 52))) * pow2 (k - 52))"
proof -
  define q where "q = round_even (\<bar>x\<bar> / pow2 (k - 52))"
  have r: "round53 x = sgn x * of_int q * pow2 (k - 52)"
    using round53_eval [OF assms(1-3)] by (simp add: q_def)
  have "\<bar>x\<bar> / pow2 (k - 52) \<le> pow2 (k + 1) / pow2 (k - 52)"
    using assms(2) by (intro div_pow2_mono) simp
  also have "\<dots> = of_int (2 ^ 53)"
  proof -
    have "pow2 (k + 1) / pow2 (k - 52) = pow2 53" by (simp add: pow2_diff)
    then show ?thesis by (simp add: pow2_def)
  qed
  finally have q1: "q \<le> 2 ^ 53" unfolding q_def by (rule round_even_le_int)
  have "0 / pow2 (k - 52) \<le> \<bar>x\<bar> / pow2 (k - 52)" by (intro div_pow2_mono) simp
  then have "of_int 0 \<le> \<bar>x\<bar> / pow2 (k - 52)" by simp
  then have q0: "0 \<le> q" unfolding q_def by (rule round_even_ge_int)
  have "real_of_int q \<le> 2 ^ 53" using q1
    by (metis of_int_le_iff of_int_numeral of_int_power)
  then have "real_of_int q * pow2 (k - 52) \<le> 2 ^ 53 * pow2 (k - 52)"
    by (intro mult_right_mono) simp_all
  also have "\<dots> = pow2 (k + 1)"
  proof -
    have "pow2 53 = 2 ^ 53" by (simp add: pow2_def)
    moreover have "53 + (k - 52) = k + 1" by simp
    ultimately show ?thesis using pow2_add [of 53 "k - 52"] by (simp only:)
  qed
  also have "\<dots> \<le> pow2 1023" using assms(4) by (intro pow2_mono) simp
  also have "\<dots> \<le> DBL_MAX" by (simp add: pow2_def DBL_MAX_def)
  finally have b: "real_of_int q * pow2 (k - 52) \<le> DBL_MAX" .
  have "0 < \<bar>x\<bar>" using assms(1) pow2_pos [of k] by linarith
  then have "x \<noteq> 0" by simp
  then have "\<bar>round53 x\<bar> = real_of_int q * pow2 (k - 52)"
    using q0 by (simp add: r abs_mult)
  then have "\<bar>round53 x\<bar> \<le> DBL_MAX" using b by simp
  then show ?thesis using rnd_Fin [of x] r by (simp add: q_def)
qed

text \<open>The doubles that the literals \<^verbatim>\<open>0.001\<close> and \<^verbatim>\<open>1.1\<close> of the source denote.\<close>

lemma milli_value: "milli = Fin (1152921504606847 / 2 ^ 60)"
proof -
  have "round53 (1 / 1000) = 1152921504606847 / 2 ^ 60"
    by (subst round53_eval [where k = "- 10"]) (simp_all add: pow2_def round_even_def Let_def)
  then show ?thesis by (simp add: milli_def rnd_def Let_def DBL_MAX_def)
qed

lemma byoyomi_extension_value: "MAX_BYOYOMI_TIME_EXTENSION = Fin (2476979795053773 / 2 ^ 51)"
proof -
  have "round53 (11 / 10) = 2476979795053773 / 2 ^ 51"
    by (subst round53_eval [where k = 0]) (simp_all add: pow2_def round_even_def Let_def)
  then show ?thesis by (simp add: MAX_BYOYOMI_TIME_EXTENSION_def rnd_def Let_def DBL_MAX_def)
qed

lemma milli_bounds: "\<exists>c. milli = Fin c \<and> 0 < c \<and> c < 1 / 512"
  by (rule exI [of _ "1152921504606847 / 2 ^ 60"]) (simp add: milli_value)

lemma dadd_milli_between:
  assumes "round53 a = a" and "round53 (a + 1) = a + 1" and "\<bar>a\<bar> \<le> DBL_MAX" and "\<bar>a + 1\<bar> \<le> DBL_MAX"
  shows "\<exists>c. dadd (Fin a) milli = Fin c \<and> a \<le> c \<and> c \<le> a + 1"
proof -
  obtain m where m: "milli = Fin m" "0 < m" "m < 1 / 512" using milli_bounds by blast
  have "\<exists>c. rnd (a + m) = Fin c \<and> a \<le> c \<and> c \<le> a + 1"
    using m by (intro rnd_between assms) simp_all
  then show ?thesis by (simp add: m(1))
qed

lemma dadd_int_milli:
  assumes "\<bar>n\<bar> < 2 ^ 52"
  shows "\<exists>c. dadd (Fin (of_int n)) milli = Fin c \<and> of_int n \<le> c \<and> c \<le> of_int n + 1"
proof -
  have 1: "\<bar>n\<bar> < 2 ^ 53" and 2: "\<bar>n + 1\<bar> < 2 ^ 53" using assms by simp_all
  show ?thesis
    using dadd_milli_between [of "of_int n"] round53_of_int [OF 1] round53_of_int [OF 2]
      int_below_DBL_MAX [OF 1] int_below_DBL_MAX [OF 2] by simp
qed

subsection \<open>Controller updates\<close>

text \<open>
  C1, as amended. A \<^verbatim>\<open>time_left\<close> notification with \<open>stones_left > 0\<close>, on a record whose
  period is not \<^verbatim>\<open>TT_NULL\<close> and whose \<open>byoyomi_periods\<close> is zero, sets the dimension
  to wall time, the period to \<^verbatim>\<open>TT_MOVE\<close>, \<open>main_time\<close> to zero, \<open>byoyomi_time\<close> to
  the reported time divided by \<open>stones_left\<close>, \<open>max_time\<close> to the reported time, and
  \<open>recommended_time\<close> to the new \<open>byoyomi_time\<close>, the time for one stone (not to the
  whole reported time). No other field changes.
\<close>

theorem time_left_byoyomi:
  assumes "period ti \<noteq> TT_NULL" and "stones_left > 0" and "byoyomi_periods ti = 0"
  shows "time_left ti t stones_left =
           Inr (ti\<lparr>dim_ti := TD_WALLTIME, period := TT_MOVE, main_time := Fin 0,
                   byoyomi_time := ddiv (d_of_int t) (d_of_int stones_left),
                   max_time := d_of_int t,
                   recommended_time := ddiv (d_of_int t) (d_of_int stones_left)\<rparr>)"
  using assms by (simp add: time_left_def Let_def)

theorem time_left_byoyomi_witness:
  "time_left \<lparr>period = TT_TOTAL, dim_ti = TD_WALLTIME, games = 0, main_time = Fin 300,
               byoyomi_time = Fin 40, byoyomi_periods = 0, timer_start = Fin 0,
               max_time = Fin 0, recommended_time = Fin 0\<rparr> 90 3 =
     Inr \<lparr>period = TT_MOVE, dim_ti = TD_WALLTIME, games = 0, main_time = Fin 0,
          byoyomi_time = Fin 30, byoyomi_periods = 0, timer_start = Fin 0,
          max_time = Fin 90, recommended_time = Fin 30\<rparr>"
  using time_left_byoyomi [of "\<lparr>period = TT_TOTAL, dim_ti = TD_WALLTIME, games = 0,
               main_time = Fin 300, byoyomi_time = Fin 40, byoyomi_periods = 0,
               timer_start = Fin 0, max_time = Fin 0, recommended_time = Fin 0\<rparr>" 3 90]
  by (simp add: d_of_int_def)

text \<open>
  C1 as it is written fails: with 90 seconds reported for 3 stones the recommended time
  is 30 seconds, not 90.
\<close>

theorem time_left_recommended_counterexample:
  "time_left \<lparr>period = TT_TOTAL, dim_ti = TD_WALLTIME, games = 0, main_time = Fin 300,
               byoyomi_time = Fin 40, byoyomi_periods = 0, timer_start = Fin 0,
               max_time = Fin 0, recommended_time = Fin 0\<rparr> 90 3 =
     Inr \<lparr>period = TT_MOVE, dim_ti = TD_WALLTIME, games = 0, main_time = Fin 0,
          byoyomi_time = Fin 30, byoyomi_periods = 0, timer_start = Fin 0,
          max_time = Fin 90, recommended_time = Fin 30\<rparr>
   \<and> Fin 30 \<noteq> Fin 90"
  by (simp add: time_left_def Let_def d_of_int_def)

text \<open>
  C8. \<^verbatim>\<open>time_settings\<close> with arguments that are not negative: with a byoyomi time and
  no byoyomi stones the period becomes \<^verbatim>\<open>TT_NULL\<close> and nothing else changes; otherwise
  the period is \<^verbatim>\<open>TT_TOTAL\<close>, the dimension wall time, \<open>main_time\<close> the main time
  given, \<open>byoyomi_time\<close> the byoyomi time given, divided by the stones when there are
  any, \<open>byoyomi_periods\<close> the periods given, and the timer is not set. The remaining
  fields keep their values.
\<close>

theorem time_settings_fields:
  assumes "0 \<le> mt" and "0 \<le> bt" and "0 \<le> bs" and "0 \<le> bp"
  shows "(bt > 0 \<and> bs = 0 \<longrightarrow>
            time_settings ti mt bt bs bp = ti\<lparr>period := TT_NULL\<rparr>)
       \<and> (\<not> (bt > 0 \<and> bs = 0) \<longrightarrow>
            period (time_settings ti mt bt bs bp) = TT_TOTAL
          \<and> dim_ti (time_settings ti mt bt bs bp) = TD_WALLTIME
          \<and> main_time (time_settings ti mt bt bs bp) = d_of_int mt
          \<and> byoyomi_time (time_settings ti mt bt bs bp) =
              (if bs > 0 then ddiv (d_of_int bt) (d_of_int bs) else d_of_int bt)
          \<and> byoyomi_periods (time_settings ti mt bt bs bp) = bp
          \<and> timer_start (time_settings ti mt bt bs bp) = Fin 0
          \<and> games (time_settings ti mt bt bs bp) = games ti
          \<and> max_time (time_settings ti mt bt bs bp) = max_time ti
          \<and> recommended_time (time_settings ti mt bt bs bp) = recommended_time ti)"
  by (simp add: time_settings_def)

theorem time_settings_fields_witness:
  "time_settings \<lparr>period = TT_MOVE, dim_ti = TD_GAMES, games = 7, main_time = Fin 1,
               byoyomi_time = Fin 2, byoyomi_periods = 3, timer_start = Fin 4,
               max_time = Fin 5, recommended_time = Fin 6\<rparr> 0 30 0 5 =
     \<lparr>period = TT_NULL, dim_ti = TD_GAMES, games = 7, main_time = Fin 1,
               byoyomi_time = Fin 2, byoyomi_periods = 3, timer_start = Fin 4,
               max_time = Fin 5, recommended_time = Fin 6\<rparr>
   \<and> period (time_settings \<lparr>period = TT_MOVE, dim_ti = TD_GAMES, games = 7, main_time = Fin 1,
               byoyomi_time = Fin 2, byoyomi_periods = 3, timer_start = Fin 4,
               max_time = Fin 5, recommended_time = Fin 6\<rparr> 300 30 1 5) = TT_TOTAL
   \<and> dim_ti (time_settings \<lparr>period = TT_MOVE, dim_ti = TD_GAMES, games = 7, main_time = Fin 1,
               byoyomi_time = Fin 2, byoyomi_periods = 3, timer_start = Fin 4,
               max_time = Fin 5, recommended_time = Fin 6\<rparr> 300 30 1 5) = TD_WALLTIME
   \<and> main_time (time_settings \<lparr>period = TT_MOVE, dim_ti = TD_GAMES, games = 7, main_time = Fin 1,
               byoyomi_time = Fin 2, byoyomi_periods = 3, timer_start = Fin 4,
               max_time = Fin 5, recommended_time = Fin 6\<rparr> 300 30 1 5) = Fin 300
   \<and> byoyomi_time (time_settings \<lparr>period = TT_MOVE, dim_ti = TD_GAMES, games = 7, main_time = Fin 1,
               byoyomi_time = Fin 2, byoyomi_periods = 3, timer_start = Fin 4,
               max_time = Fin 5, recommended_time = Fin 6\<rparr> 300 30 1 5) = Fin 30"
  using time_settings_fields [of 0 30 0 5 "\<lparr>period = TT_MOVE, dim_ti = TD_GAMES, games = 7,
               main_time = Fin 1,
               byoyomi_time = Fin 2, byoyomi_periods = 3, timer_start = Fin 4,
               max_time = Fin 5, recommended_time = Fin 6\<rparr>"]
     time_settings_fields [of 300 30 1 5 "\<lparr>period = TT_MOVE, dim_ti = TD_GAMES, games = 7,
               main_time = Fin 1,
               byoyomi_time = Fin 2, byoyomi_periods = 3, timer_start = Fin 4,
               max_time = Fin 5, recommended_time = Fin 6\<rparr>"]
  by (simp add: d_of_int_def)

text \<open>
  C10. \<^verbatim>\<open>time_start_timer\<close> changes no field but \<open>timer_start\<close>, and changes that one
  only when the period is not \<^verbatim>\<open>TT_NULL\<close> and the dimension is wall time, where it
  stores the clock; a record with period \<^verbatim>\<open>TT_NULL\<close> or dimension \<^verbatim>\<open>TD_GAMES\<close>
  comes back as it was.
\<close>

theorem time_start_timer_frame:
  "(time_start_timer now ti)\<lparr>timer_start := timer_start ti\<rparr> = ti
   \<and> (timer_start (time_start_timer now ti) \<noteq> timer_start ti \<longrightarrow>
        period ti \<noteq> TT_NULL \<and> dim_ti ti = TD_WALLTIME)
   \<and> (period ti = TT_NULL \<or> dim_ti ti = TD_GAMES \<longrightarrow> time_start_timer now ti = ti)
   \<and> (period ti \<noteq> TT_NULL \<and> dim_ti ti = TD_WALLTIME \<longrightarrow>
        time_start_timer now ti = ti\<lparr>timer_start := now\<rparr>)"
  by (auto simp add: time_start_timer_def)

theorem time_start_timer_frame_witness:
  "time_start_timer (Fin 1000) \<lparr>period = TT_NULL, dim_ti = TD_WALLTIME, games = 7,
               main_time = Fin 1,
               byoyomi_time = Fin 2, byoyomi_periods = 3, timer_start = Fin 4,
               max_time = Fin 5, recommended_time = Fin 6\<rparr> =
     \<lparr>period = TT_NULL, dim_ti = TD_WALLTIME, games = 7, main_time = Fin 1,
               byoyomi_time = Fin 2, byoyomi_periods = 3, timer_start = Fin 4,
               max_time = Fin 5, recommended_time = Fin 6\<rparr>
   \<and> time_start_timer (Fin 1000) \<lparr>period = TT_MOVE, dim_ti = TD_GAMES, games = 7,
               main_time = Fin 1,
               byoyomi_time = Fin 2, byoyomi_periods = 3, timer_start = Fin 4,
               max_time = Fin 5, recommended_time = Fin 6\<rparr> =
     \<lparr>period = TT_MOVE, dim_ti = TD_GAMES, games = 7, main_time = Fin 1,
               byoyomi_time = Fin 2, byoyomi_periods = 3, timer_start = Fin 4,
               max_time = Fin 5, recommended_time = Fin 6\<rparr>
   \<and> time_start_timer (Fin 1000) \<lparr>period = TT_MOVE, dim_ti = TD_WALLTIME, games = 7,
               main_time = Fin 1,
               byoyomi_time = Fin 2, byoyomi_periods = 3, timer_start = Fin 4,
               max_time = Fin 5, recommended_time = Fin 6\<rparr> =
     \<lparr>period = TT_MOVE, dim_ti = TD_WALLTIME, games = 7, main_time = Fin 1,
               byoyomi_time = Fin 2, byoyomi_periods = 3, timer_start = Fin 1000,
               max_time = Fin 5, recommended_time = Fin 6\<rparr>"
  using time_start_timer_frame [where now = "Fin 1000" and ti = "\<lparr>period = TT_NULL,
               dim_ti = TD_WALLTIME, games = 7, main_time = Fin 1,
               byoyomi_time = Fin 2, byoyomi_periods = 3, timer_start = Fin 4,
               max_time = Fin 5, recommended_time = Fin 6\<rparr>"]
    time_start_timer_frame [where now = "Fin 1000" and ti = "\<lparr>period = TT_MOVE,
               dim_ti = TD_GAMES, games = 7, main_time = Fin 1,
               byoyomi_time = Fin 2, byoyomi_periods = 3, timer_start = Fin 4,
               max_time = Fin 5, recommended_time = Fin 6\<rparr>"]
    time_start_timer_frame [where now = "Fin 1000" and ti = "\<lparr>period = TT_MOVE,
               dim_ti = TD_WALLTIME, games = 7, main_time = Fin 1,
               byoyomi_time = Fin 2, byoyomi_periods = 3, timer_start = Fin 4,
               max_time = Fin 5, recommended_time = Fin 6\<rparr>"]
  by simp

subsection \<open>The byoyomi predicate\<close>

text \<open>
  C6. Under its precondition (wall time, \<^verbatim>\<open>TT_MOVE\<close>), \<^verbatim>\<open>time_in_byoyomi\<close> is false when
  \<open>byoyomi_time\<close> is zero; otherwise true when \<open>main_time\<close> is zero or at most
  \<open>byoyomi_time + 0.001\<close>; and false in every other case. The sum and the comparison
  are those of doubles.
\<close>

theorem time_in_byoyomi_cases:
  assumes "dim_ti ti = TD_WALLTIME" and "period ti = TT_MOVE"
  shows "time_in_byoyomi ti =
           Inr (\<not> is_zero (byoyomi_time ti)
                \<and> (is_zero (main_time ti)
                    \<or> dle (main_time ti) (dadd (byoyomi_time ti) milli)))"
  using assms by (simp add: time_in_byoyomi_def)

theorem time_in_byoyomi_cases_witness:
  "time_in_byoyomi \<lparr>period = TT_MOVE, dim_ti = TD_WALLTIME, games = 0, main_time = Fin 31,
               byoyomi_time = Fin 30, byoyomi_periods = 0, timer_start = Fin 0,
               max_time = Fin 0, recommended_time = Fin 0\<rparr> = Inr False
   \<and> time_in_byoyomi \<lparr>period = TT_MOVE, dim_ti = TD_WALLTIME, games = 0,
               main_time = rnd 29.9995,
               byoyomi_time = Fin 30, byoyomi_periods = 0, timer_start = Fin 0,
               max_time = Fin 0, recommended_time = Fin 0\<rparr> = Inr True"
proof -
  obtain c where c: "dadd (Fin 30) milli = Fin c" "30 \<le> c" "c \<le> 31"
    using dadd_int_milli [of 30] by auto
  have "c \<noteq> 31"
  proof
    assume "c = 31"
    then have "rnd (30 + 1152921504606847 / 2 ^ 60) = Fin 31" using c(1) by (simp add: milli_value)
    moreover have "\<exists>d. rnd (30 + 1152921504606847 / 2 ^ 60) = Fin d \<and> 30 \<le> d \<and> d \<le> 61 / 2"
      by (intro rnd_between)
        (simp_all add: DBL_MAX_def round53_exact [where m = 61 and e = "- 1"] pow2_def
          round53_exact [where m = 30 and e = 0])
    ultimately show False by auto
  qed
  then have c31: "c < 31" using c(3) by simp
  obtain m where m: "rnd 29.9995 = Fin m" "29 \<le> m" "m \<le> 30"
    using rnd_between [of 29 "29.9995" 30] round53_of_int [of 29] round53_of_int [of 30]
    by (auto simp add: DBL_MAX_def)
  have m0: "m \<noteq> 0" using m(2) by simp
  show ?thesis
    using time_in_byoyomi_cases [of "\<lparr>period = TT_MOVE, dim_ti = TD_WALLTIME, games = 0,
               main_time = Fin 31,
               byoyomi_time = Fin 30, byoyomi_periods = 0, timer_start = Fin 0,
               max_time = Fin 0, recommended_time = Fin 0\<rparr>"]
      time_in_byoyomi_cases [of "\<lparr>period = TT_MOVE, dim_ti = TD_WALLTIME, games = 0,
               main_time = rnd 29.9995,
               byoyomi_time = Fin 30, byoyomi_periods = 0, timer_start = Fin 0,
               max_time = Fin 0, recommended_time = Fin 0\<rparr>"]
      c c31 m m0
    by (simp add: is_zero_def)
qed

subsection \<open>Stop conditions by number of playouts\<close>

text \<open>
  C7. With dimension \<^verbatim>\<open>TD_GAMES\<close> and period \<^verbatim>\<open>TT_TOTAL\<close>, and an estimate of the moves
  left that is not zero, \<^verbatim>\<open>time_stop_conditions\<close> replaces \<open>games\<close> by its integer
  quotient by the estimate, sets the period to \<^verbatim>\<open>TT_MOVE\<close>, and returns that quotient as
  both the desired and the worst number of playouts.
\<close>

theorem stop_games_total:
  assumes "period ti = TT_TOTAL" and "dim_ti ti = TD_GAMES"
    and "board_estimated_moves_left b \<noteq> 0"
  shows "time_stop_conditions min_moves_left now ti b fuseki_end yose_start =
           Inr (ti\<lparr>period := TT_MOVE, games := c_div (games ti) (board_estimated_moves_left b)\<rparr>,
                \<lparr>desired = Playouts (c_div (games ti) (board_estimated_moves_left b)),
                 worst = Playouts (c_div (games ti) (board_estimated_moves_left b))\<rparr>)"
  using assms by (simp add: time_stop_conditions_def stop_games_def Let_def)

theorem stop_games_total_witness:
  "time_stop_conditions 30 (Fin 1000)
      \<lparr>period = TT_TOTAL, dim_ti = TD_GAMES, games = 1000, main_time = Fin 0,
               byoyomi_time = Fin 0, byoyomi_periods = 0, timer_start = Fin 0,
               max_time = Fin 0, recommended_time = Fin 0\<rparr>
      \<lparr>board_size = 21, moves = 0, board_estimated_moves_left = 10\<rparr> 10 40 =
     Inr (\<lparr>period = TT_MOVE, dim_ti = TD_GAMES, games = 100, main_time = Fin 0,
               byoyomi_time = Fin 0, byoyomi_periods = 0, timer_start = Fin 0,
               max_time = Fin 0, recommended_time = Fin 0\<rparr>,
          \<lparr>desired = Playouts 100, worst = Playouts 100\<rparr>)"
  using stop_games_total [where ti = "\<lparr>period = TT_TOTAL, dim_ti = TD_GAMES, games = 1000,
               main_time = Fin 0,
               byoyomi_time = Fin 0, byoyomi_periods = 0, timer_start = Fin 0,
               max_time = Fin 0, recommended_time = Fin 0\<rparr>"
      and b = "\<lparr>board_size = 21, moves = 0, board_estimated_moves_left = 10\<rparr>"
      and min_moves_left = 30 and now = "Fin 1000" and fuseki_end = 10 and yose_start = 40]
  by (simp add: c_div_def)

subsection \<open>Parsing\<close>


lemma atoi_large: "atoi ''99999999999'' = 1215752191"
  by (simp add: parse_defs)






lemma strtod_value_large: "strtod_value ''1e999'' = scale 1 10 999" by (simp add: parse_defs0)

lemma scale_large: "scale 1 10 999 = (10::real) ^ (3 * 333)"
proof -
  have "nat 999 = 3 * 333" by simp
  then show ?thesis by (simp only: scale_def) (simp del: power_numeral)
qed

lemma pow2_1024: "pow2 1024 = 2 ^ 1024"
  by (simp add: pow2_def del: power_numeral)

lemma scale_large_bound: "pow2 1024 \<le> scale 1 10 999"
proof -
  have "(2::real) ^ 1024 \<le> 2 ^ (9 * 333)" by (rule power_increasing) simp_all
  also have "\<dots> = (2 ^ 9) ^ 333" by (rule power_mult)
  also have "\<dots> \<le> (10 ^ 3) ^ 333" by (rule power_mono) simp_all
  also have "\<dots> = 10 ^ (3 * 333)" by (rule power_mult [symmetric])
  finally show ?thesis by (simp only: scale_large pow2_1024)
qed

lemma DBL_MAX_less_pow2: "DBL_MAX < pow2 1024"
proof -
  have "((2::real) ^ 53 - 1) * 2 ^ 971 < 2 ^ 53 * 2 ^ 971"
    by (rule mult_strict_right_mono) simp_all
  also have "\<dots> = (2::real) ^ (53 + 971)" by (rule power_add [symmetric])
  also have "\<dots> = pow2 1024" by (simp add: pow2_def)
  finally show ?thesis by (simp only: DBL_MAX_def)
qed

lemma atof_large: "atof ''1e999'' = PInf"
proof -
  have "round53 (pow2 1024) \<le> round53 (scale 1 10 999)"
    using scale_large_bound by (rule round53_mono)
  moreover have "round53 (pow2 1024) = pow2 1024"
    by (rule round53_exact [where m = 1 and e = 1024]) simp_all
  ultimately have "DBL_MAX < round53 (scale 1 10 999)" using DBL_MAX_less_pow2 by linarith
  then show ?thesis by (simp add: atof_def strtod_value_large rnd_def Let_def)
qed





subsection \<open>The steps of the wall-time branch\<close>

text \<open>
  The steps before the limits leave the dimension, the main time and the byoyomi time
  alone.
\<close>

lemma setup_timer_fields:
  "period (fst (setup_timer now ti)) = period ti"
  "dim_ti (fst (setup_timer now ti)) = dim_ti ti"
  "main_time (fst (setup_timer now ti)) = main_time ti"
  "byoyomi_time (fst (setup_timer now ti)) = byoyomi_time ti"
  by (simp_all add: setup_timer_def)

lemma initial_recommendations_fields:
  "period (initial_recommendations ti) = period ti"
  "dim_ti (initial_recommendations ti) = dim_ti ti"
  "main_time (initial_recommendations ti) = main_time ti"
  "byoyomi_time (initial_recommendations ti) = byoyomi_time ti"
  by (simp_all add: initial_recommendations_def)

lemma reserve_byoyomi_fields:
  "period (reserve_byoyomi ti) = period ti"
  "dim_ti (reserve_byoyomi ti) = dim_ti ti"
  "main_time (reserve_byoyomi ti) = main_time ti"
  "byoyomi_time (reserve_byoyomi ti) = byoyomi_time ti"
  "recommended_time (reserve_byoyomi ti) = max_time (reserve_byoyomi ti)"
  by (simp_all add: reserve_byoyomi_def Let_def)

lemma reserve_byoyomi_max_time:
  "max_time (reserve_byoyomi ti) =
     dadd (if byoyomi_periods ti > 2
           then dadd (max_time ti) (dmul (d_of_int (byoyomi_periods ti - 2)) (byoyomi_time ti))
           else max_time ti)
       (byoyomi_time ti)"
  by (simp add: reserve_byoyomi_def Let_def)

lemma total_to_move_fields:
  "period (total_to_move ti net_lag est) = TT_MOVE"
  "dim_ti (total_to_move ti net_lag est) = dim_ti ti"
  "main_time (total_to_move ti net_lag est) = main_time ti"
  "byoyomi_time (total_to_move ti net_lag est) = byoyomi_time ti"
  by (simp_all add: total_to_move_def convert_total_def Let_def reserve_byoyomi_fields)

text \<open>
  With a byoyomi period longer than the lag, the number of moves is at least one. When
  the quotient is in the range of \<^verbatim>\<open>int\<close>, it is the estimate limited by the floor of the
  quotient: the cast rounds a negative quotient up, but then the result is 1 either way.
\<close>

lemma main_time_moves_positive:
  "dgt (dsub (byoyomi_time ti) net_lag) (Fin 0) \<Longrightarrow> 1 \<le> main_time_moves ti net_lag est"
  by (simp add: main_time_moves_def Let_def)

lemma main_time_moves_no_clamp:
  "\<not> dgt (dsub (byoyomi_time ti) net_lag) (Fin 0) \<Longrightarrow> main_time_moves ti net_lag est = est"
  by (simp add: main_time_moves_def Let_def)



text \<open>A quotient that is no \<^verbatim>\<open>int\<close> leaves one move.\<close>

lemma main_time_moves_overflow:
  assumes "dgt (dsub (byoyomi_time ti) net_lag) (Fin 0)"
    and "\<not> fits_int (ddiv (max_time ti) (dsub (byoyomi_time ti) net_lag))"
    and "- (2 ^ 31) < est"
  shows "main_time_moves ti net_lag est = 1"
proof -
  have "c_trunc (ddiv (max_time ti) (dsub (byoyomi_time ti) net_lag)) = - (2 ^ 31)"
    using assms(2) by (cases "ddiv (max_time ti) (dsub (byoyomi_time ti) net_lag)")
      (auto simp add: c_trunc_def fits_int_def)
  then show ?thesis using assms(1,3) by (simp add: main_time_moves_def Let_def)
qed

subsection \<open>From total time to time for a move\<close>



text \<open>
  The quotient is the rounded one. On the record that \<^verbatim>\<open>time_settings(5, 25, 6, 5)\<close>
  leaves, with a lag of 2 seconds, the quotient of the doubles is 10, and the time is
  spread over 10 moves (the quotient of the exact numbers is under 10).
\<close>

lemma settings_byoyomi_time: "ddiv (Fin 25) (Fin 6) = Fin (4691249611844267 / 2 ^ 50)"
proof -
  have "rnd (25 / 6) = Fin (4691249611844267 / 2 ^ 50)"
    by (subst rnd_eval [where k = 2]) (simp_all add: pow2_def round_even_def Let_def)
  then show ?thesis by simp
qed

lemma settings_periods_time: "dmul (Fin 3) (Fin (4691249611844267 / 2 ^ 50)) = Fin (25 / 2)"
proof -
  have "rnd (3 * (4691249611844267 / 2 ^ 50)) = Fin (25 / 2)"
    by (subst rnd_eval [where k = 3]) (simp_all add: pow2_def round_even_def Let_def)
  then show ?thesis by simp
qed

lemma settings_max_time:
  "dadd (Fin (35 / 2)) (Fin (4691249611844267 / 2 ^ 50)) = Fin (6098624495397547 / 2 ^ 48)"
proof -
  have "rnd (35 / 2 + 4691249611844267 / 2 ^ 50) = Fin (6098624495397547 / 2 ^ 48)"
    by (subst rnd_eval [where k = 4]) (simp_all add: pow2_def round_even_def Let_def)
  then show ?thesis by simp
qed

lemma settings_actual_byoyomi:
  "dsub (Fin (4691249611844267 / 2 ^ 50)) (Fin 2) = Fin (2439449798159019 / 2 ^ 50)"
proof -
  have "rnd (4691249611844267 / 2 ^ 50 - 2) = Fin (2439449798159019 / 2 ^ 50)"
    using rnd_dyadic [where m = 2439449798159019 and e = "- 50"
        and x = "4691249611844267 / 2 ^ 50 - 2"]
    by (simp add: pow2_def DBL_MAX_def)
  then show ?thesis by (simp add: dsub_def dneg_def)
qed

lemma settings_quotient:
  "ddiv (Fin (6098624495397547 / 2 ^ 48)) (Fin (2439449798159019 / 2 ^ 50)) = Fin 10"
proof -
  have "rnd (6098624495397547 / 2 ^ 48 / (2439449798159019 / 2 ^ 50)) = Fin 10"
    by (subst rnd_eval [where k = 3]) (simp_all add: pow2_def round_even_def Let_def)
  then show ?thesis by simp
qed

lemma main_time_moves_rounded:
  "time_settings \<lparr>period = TT_NULL, dim_ti = TD_GAMES, games = 0, main_time = Fin 0,
        byoyomi_time = Fin 0, byoyomi_periods = 0, timer_start = Fin 0, max_time = Fin 0,
        recommended_time = Fin 0\<rparr> 5 25 6 5 =
     \<lparr>period = TT_TOTAL, dim_ti = TD_WALLTIME, games = 0, main_time = Fin 5,
        byoyomi_time = Fin (4691249611844267 / 2 ^ 50), byoyomi_periods = 5,
        timer_start = Fin 0, max_time = Fin 0, recommended_time = Fin 0\<rparr>
   \<and> convert_total
       (initial_recommendations
          \<lparr>period = TT_TOTAL, dim_ti = TD_WALLTIME, games = 0, main_time = Fin 5,
            byoyomi_time = Fin (4691249611844267 / 2 ^ 50), byoyomi_periods = 5,
            timer_start = Fin 1000, max_time = Fin 0, recommended_time = Fin 0\<rparr>)
       (Fin 2) 100 =
     (\<lparr>period = TT_TOTAL, dim_ti = TD_WALLTIME, games = 0, main_time = Fin 5,
        byoyomi_time = Fin (4691249611844267 / 2 ^ 50), byoyomi_periods = 5,
        timer_start = Fin 1000, max_time = Fin (6098624495397547 / 2 ^ 48),
        recommended_time = Fin (6098624495397547 / 2 ^ 48)\<rparr>, 10)"
proof -
  have a: "time_settings \<lparr>period = TT_NULL, dim_ti = TD_GAMES, games = 0, main_time = Fin 0,
        byoyomi_time = Fin 0, byoyomi_periods = 0, timer_start = Fin 0, max_time = Fin 0,
        recommended_time = Fin 0\<rparr> 5 25 6 5 =
     \<lparr>period = TT_TOTAL, dim_ti = TD_WALLTIME, games = 0, main_time = Fin 5,
        byoyomi_time = Fin (4691249611844267 / 2 ^ 50), byoyomi_periods = 5,
        timer_start = Fin 0, max_time = Fin 0, recommended_time = Fin 0\<rparr>"
    by (simp add: time_settings_def d_of_int_def dgt_def settings_byoyomi_time
        del: ddiv.simps(1))
  have r: "reserve_byoyomi
          \<lparr>period = TT_TOTAL, dim_ti = TD_WALLTIME, games = 0, main_time = Fin 5,
            byoyomi_time = Fin (4691249611844267 / 2 ^ 50), byoyomi_periods = 5,
            timer_start = Fin 1000, max_time = Fin 5, recommended_time = Fin 5\<rparr> =
         \<lparr>period = TT_TOTAL, dim_ti = TD_WALLTIME, games = 0, main_time = Fin 5,
            byoyomi_time = Fin (4691249611844267 / 2 ^ 50), byoyomi_periods = 5,
            timer_start = Fin 1000,
            max_time = dadd (dadd (Fin 5) (dmul (Fin 3) (Fin (4691249611844267 / 2 ^ 50))))
                         (Fin (4691249611844267 / 2 ^ 50)),
            recommended_time = dadd (dadd (Fin 5) (dmul (Fin 3) (Fin (4691249611844267 / 2 ^ 50))))
                         (Fin (4691249611844267 / 2 ^ 50))\<rparr>"
    by (simp add: reserve_byoyomi_def Let_def d_of_int_def del: dadd.simps dmul.simps)
  have m: "dadd (dadd (Fin 5) (dmul (Fin 3) (Fin (4691249611844267 / 2 ^ 50))))
                         (Fin (4691249611844267 / 2 ^ 50)) = Fin (6098624495397547 / 2 ^ 48)"
  proof -
    have "dadd (Fin 5) (Fin (25 / 2)) = Fin (35 / 2)" by simp
    then show ?thesis by (simp only: settings_periods_time settings_max_time)
  qed
  have t: "c_trunc (Fin 10) = 10" by (simp add: c_trunc_def)
  have mm: "main_time_moves
         \<lparr>period = TT_TOTAL, dim_ti = TD_WALLTIME, games = 0, main_time = Fin 5,
            byoyomi_time = Fin (4691249611844267 / 2 ^ 50), byoyomi_periods = 5,
            timer_start = Fin 1000, max_time = Fin (6098624495397547 / 2 ^ 48),
            recommended_time = Fin (6098624495397547 / 2 ^ 48)\<rparr> (Fin 2) 100 = 10"
    unfolding main_time_moves_def Let_def
    by (simp only: time_info.simps settings_actual_byoyomi settings_quotient t)
      (simp add: dgt_def)
  have i: "initial_recommendations
          \<lparr>period = TT_TOTAL, dim_ti = TD_WALLTIME, games = 0, main_time = Fin 5,
            byoyomi_time = Fin (4691249611844267 / 2 ^ 50), byoyomi_periods = 5,
            timer_start = Fin 1000, max_time = Fin 0, recommended_time = Fin 0\<rparr> =
          \<lparr>period = TT_TOTAL, dim_ti = TD_WALLTIME, games = 0, main_time = Fin 5,
            byoyomi_time = Fin (4691249611844267 / 2 ^ 50), byoyomi_periods = 5,
            timer_start = Fin 1000, max_time = Fin 5, recommended_time = Fin 5\<rparr>"
    by (simp add: initial_recommendations_def is_zero_def)
  have g: "dgt (Fin (4691249611844267 / 2 ^ 50)) (Fin 0)" by (simp add: dgt_def)
  have "convert_total
       (initial_recommendations
          \<lparr>period = TT_TOTAL, dim_ti = TD_WALLTIME, games = 0, main_time = Fin 5,
            byoyomi_time = Fin (4691249611844267 / 2 ^ 50), byoyomi_periods = 5,
            timer_start = Fin 1000, max_time = Fin 0, recommended_time = Fin 0\<rparr>)
       (Fin 2) 100 =
     (\<lparr>period = TT_TOTAL, dim_ti = TD_WALLTIME, games = 0, main_time = Fin 5,
        byoyomi_time = Fin (4691249611844267 / 2 ^ 50), byoyomi_periods = 5,
        timer_start = Fin 1000, max_time = Fin (6098624495397547 / 2 ^ 48),
        recommended_time = Fin (6098624495397547 / 2 ^ 48)\<rparr>, 10)"
    unfolding convert_total_def Let_def
    by (simp only: i time_info.simps g if_True r m mm)
  then show ?thesis using a by simp
qed

subsection \<open>The first half of the wall-time branch\<close>

lemma convert_total_moves:
  "(snd (convert_total ti net_lag est) = 0 \<longleftrightarrow>
      est = 0 \<and> \<not> (dgt (byoyomi_time ti) (Fin 0)
                     \<and> dgt (dsub (byoyomi_time ti) net_lag) (Fin 0)))"
  "1 \<le> est \<Longrightarrow> 1 \<le> snd (convert_total ti net_lag est)"
proof -
  have pos: "dgt (dsub (byoyomi_time ti) net_lag) (Fin 0) \<Longrightarrow>
      1 \<le> main_time_moves (reserve_byoyomi ti) net_lag est"
    using main_time_moves_positive [of "reserve_byoyomi ti" net_lag est]
    by (simp add: reserve_byoyomi_fields)
  have same: "\<not> dgt (dsub (byoyomi_time ti) net_lag) (Fin 0) \<Longrightarrow>
      main_time_moves (reserve_byoyomi ti) net_lag est = est"
    using main_time_moves_no_clamp [of "reserve_byoyomi ti" net_lag est]
    by (simp add: reserve_byoyomi_fields)
  show "(snd (convert_total ti net_lag est) = 0 \<longleftrightarrow>
      est = 0 \<and> \<not> (dgt (byoyomi_time ti) (Fin 0)
                     \<and> dgt (dsub (byoyomi_time ti) net_lag) (Fin 0)))"
    using pos same by (cases "dgt (dsub (byoyomi_time ti) net_lag) (Fin 0)")
      (auto simp add: convert_total_def Let_def)
  show "1 \<le> est \<Longrightarrow> 1 \<le> snd (convert_total ti net_lag est)"
    using pos same by (cases "dgt (dsub (byoyomi_time ti) net_lag) (Fin 0)")
      (auto simp add: convert_total_def Let_def)
qed

lemma clamp_times_abort: "clamp_times ti = Inl e \<Longrightarrow> e = Assert_recommended_max"
  by (simp add: clamp_times_def Let_def split: if_splits)

lemma not_dlt_dle: "a \<noteq> NaN \<Longrightarrow> b \<noteq> NaN \<Longrightarrow> \<not> dlt a b \<Longrightarrow> dle b a"
  by (cases a; cases b) (auto simp add: dle_def)

lemma dadd_NaN_left: "dadd a b \<noteq> NaN \<Longrightarrow> a \<noteq> NaN"
  by (cases a; cases b) auto

lemma clamp_times_fields:
  assumes "clamp_times ti = Inr ti1"
  shows "period ti1 = period ti" "dim_ti ti1 = dim_ti ti" "main_time ti1 = main_time ti"
    "byoyomi_time ti1 = byoyomi_time ti" "timer_start ti1 = timer_start ti"
    "dle (Fin 0) (recommended_time ti1)" "dle (Fin 0) (max_time ti1)"
    "dle (recommended_time ti1) (dadd (max_time ti1) milli)"
proof -
  define ta where "ta = (if dlt (recommended_time ti) (Fin 0) then ti\<lparr>recommended_time := Fin 0\<rparr> else ti)"
  define tb where "tb = (if dlt (max_time ta) (Fin 0) then ta\<lparr>max_time := Fin 0\<rparr> else ta)"
  have le: "dle (recommended_time tb) (dadd (max_time tb) milli)" and eq: "ti1 = tb"
    using assms by (auto simp add: clamp_times_def Let_def ta_def tb_def split: if_splits)
  show "period ti1 = period ti" "dim_ti ti1 = dim_ti ti" "main_time ti1 = main_time ti"
    "byoyomi_time ti1 = byoyomi_time ti" "timer_start ti1 = timer_start ti"
    by (simp_all add: eq ta_def tb_def)
  show "dle (recommended_time ti1) (dadd (max_time ti1) milli)" using le eq by simp
  have rn: "recommended_time tb \<noteq> NaN" using le by (cases "recommended_time tb") simp_all
  have "dadd (max_time tb) milli \<noteq> NaN" using le by (cases "dadd (max_time tb) milli") simp_all
  then have mn: "max_time tb \<noteq> NaN" by (rule dadd_NaN_left)
  have "\<not> dlt (recommended_time tb) (Fin 0)" by (simp add: ta_def tb_def)
  then show "dle (Fin 0) (recommended_time ti1)" using rn eq by (simp add: not_dlt_dle)
  have "\<not> dlt (max_time tb) (Fin 0)" by (simp add: tb_def)
  then show "dle (Fin 0) (max_time ti1)" using mn eq by (simp add: not_dlt_dle)
qed

lemma stop_prepare_total:
  assumes "period ti = TT_TOTAL"
  shows "stop_prepare now ti b =
     (case clamp_times (total_to_move (initial_recommendations (fst (setup_timer now ti)))
              (snd (setup_timer now ti)) (board_estimated_moves_left b)) of
        Inl e \<Rightarrow> Inl e
      | Inr ti4 \<Rightarrow> Inr (ti4, safety_lag ti4 (snd (setup_timer now ti))))"
  using assms
  by (auto simp add: stop_prepare_def Let_def split_beta initial_recommendations_fields
      setup_timer_fields total_to_move_fields clamp_times_fields split: sum.splits)

lemma stop_prepare_clamp:
  assumes "stop_prepare now ti b = Inr (ti1, lag)"
  shows "\<exists>ti3. clamp_times ti3 = Inr ti1 \<and> dim_ti ti3 = dim_ti ti
           \<and> main_time ti3 = main_time ti \<and> byoyomi_time ti3 = byoyomi_time ti
           \<and> period ti1 = TT_MOVE"
  using assms
  by (auto simp add: stop_prepare_def Let_def split_beta initial_recommendations_fields
      setup_timer_fields total_to_move_fields split: sum.splits if_splits)

lemma stop_prepare_fields:
  assumes "stop_prepare now ti b = Inr (ti1, lag)"
  shows "period ti1 = TT_MOVE" "dim_ti ti1 = dim_ti ti" "main_time ti1 = main_time ti"
    "byoyomi_time ti1 = byoyomi_time ti"
    "dle (Fin 0) (recommended_time ti1)" "dle (Fin 0) (max_time ti1)"
    "dle (recommended_time ti1) (dadd (max_time ti1) milli)"
proof -
  obtain ti3 where c: "clamp_times ti3 = Inr ti1" and f: "dim_ti ti3 = dim_ti ti"
      "main_time ti3 = main_time ti" "byoyomi_time ti3 = byoyomi_time ti"
      and p: "period ti1 = TT_MOVE"
    using stop_prepare_clamp [OF assms] by blast
  show "period ti1 = TT_MOVE" by (rule p)
  show "dim_ti ti1 = dim_ti ti" using clamp_times_fields(2) [OF c] f by simp
  show "main_time ti1 = main_time ti" using clamp_times_fields(3) [OF c] f by simp
  show "byoyomi_time ti1 = byoyomi_time ti" using clamp_times_fields(4) [OF c] f by simp
  show "dle (Fin 0) (recommended_time ti1)" by (rule clamp_times_fields(6) [OF c])
  show "dle (Fin 0) (max_time ti1)" by (rule clamp_times_fields(7) [OF c])
  show "dle (recommended_time ti1) (dadd (max_time ti1) milli)" by (rule clamp_times_fields(8) [OF c])
qed

lemma stop_prepare_abort:
  "stop_prepare now ti b = Inl e \<Longrightarrow> e = Assert_recommended_max \<or> e = Assert_period_move"
  by (auto simp add: stop_prepare_def Let_def split_beta dest: clamp_times_abort
      split: sum.splits if_splits)

lemma main_time_desired_abort:
  "main_time_desired mml ti b fe ys = Inl e \<Longrightarrow>
     e = Assert_fuseki_yose \<or> e = Assert_fuseki_positive"
  by (auto simp add: main_time_desired_def Let_def split: if_splits)

lemma stop_limits_abort:
  "stop_limits mml ti b fe ys = Inl e \<Longrightarrow>
     e = Assert_in_byoyomi_pre \<or> e = Assert_fuseki_yose \<or> e = Assert_fuseki_positive"
  by (auto simp add: stop_limits_def raw_limits_def time_in_byoyomi_def Let_def
      dest: main_time_desired_abort split: if_splits sum.splits)

lemma stop_walltime_abort:
  "stop_walltime mml now ti b fe ys = Inl e \<Longrightarrow> e \<noteq> Div_zero_games"
  by (auto simp add: stop_walltime_def dest: stop_prepare_abort stop_limits_abort
      split: sum.splits)

subsection \<open>Division by the number of moves left\<close>

text \<open>
  C9. With period \<^verbatim>\<open>TT_TOTAL\<close>, \<^verbatim>\<open>time_stop_conditions\<close> divides by the estimate of the
  moves left without a test for zero. By playouts the division is one of integers: the
  run ends there exactly when the estimate is zero, and returns otherwise. By wall time
  the recommended time is divided by \<open>moves_left\<close> as a double, whatever its value, and
  \<open>moves_left\<close> is zero exactly when the estimate is zero and the limit of the moves to
  1 at least is not reached, that is unless \<open>byoyomi_time\<close> is positive and larger
  than the lag. With an estimate of 1 or more the divisor is 1 or more, and no run ends
  at a division.
\<close>

theorem moves_left_division:
  "(period ti = TT_TOTAL \<and> dim_ti ti = TD_GAMES \<longrightarrow>
      (time_stop_conditions mml now ti b fe ys = Inl Div_zero_games
         \<longleftrightarrow> board_estimated_moves_left b = 0)
    \<and> (board_estimated_moves_left b \<noteq> 0 \<longrightarrow>
         (\<exists>r. time_stop_conditions mml now ti b fe ys = Inr r)))
   \<and> (period ti = TT_TOTAL \<longrightarrow>
        stop_prepare now ti b =
          (case clamp_times
                  (total_to_move (initial_recommendations (fst (setup_timer now ti)))
                     (snd (setup_timer now ti)) (board_estimated_moves_left b)) of
             Inl e \<Rightarrow> Inl e
           | Inr ti4 \<Rightarrow> Inr (ti4, safety_lag ti4 (snd (setup_timer now ti)))))
   \<and> recommended_time (total_to_move ti net_lag est) =
        ddiv (recommended_time (fst (convert_total ti net_lag est)))
          (d_of_int (snd (convert_total ti net_lag est)))
   \<and> (snd (convert_total ti net_lag est) = 0 \<longleftrightarrow>
        est = 0 \<and> \<not> (dgt (byoyomi_time ti) (Fin 0)
                       \<and> dgt (dsub (byoyomi_time ti) net_lag) (Fin 0)))
   \<and> (1 \<le> est \<longrightarrow> 1 \<le> snd (convert_total ti net_lag est))
   \<and> (1 \<le> board_estimated_moves_left b \<longrightarrow>
        time_stop_conditions mml now ti b fe ys \<noteq> Inl Div_zero_games)"
proof -
  have g: "period ti = TT_TOTAL \<and> dim_ti ti = TD_GAMES \<longrightarrow>
      (time_stop_conditions mml now ti b fe ys = Inl Div_zero_games
         \<longleftrightarrow> board_estimated_moves_left b = 0)
    \<and> (board_estimated_moves_left b \<noteq> 0 \<longrightarrow>
         (\<exists>r. time_stop_conditions mml now ti b fe ys = Inr r))"
    by (simp add: time_stop_conditions_def stop_games_def Let_def)
  have p: "period ti = TT_TOTAL \<longrightarrow>
        stop_prepare now ti b =
          (case clamp_times
                  (total_to_move (initial_recommendations (fst (setup_timer now ti)))
                     (snd (setup_timer now ti)) (board_estimated_moves_left b)) of
             Inl e \<Rightarrow> Inl e
           | Inr ti4 \<Rightarrow> Inr (ti4, safety_lag ti4 (snd (setup_timer now ti))))"
    using stop_prepare_total by blast
  have r: "recommended_time (total_to_move ti net_lag est) =
        ddiv (recommended_time (fst (convert_total ti net_lag est)))
          (d_of_int (snd (convert_total ti net_lag est)))"
    by (simp add: total_to_move_def split_beta Let_def)
  have n: "1 \<le> board_estimated_moves_left b \<longrightarrow>
        time_stop_conditions mml now ti b fe ys \<noteq> Inl Div_zero_games"
    by (auto simp add: time_stop_conditions_def stop_games_def Let_def
        dest: stop_walltime_abort split: sum.splits if_splits)
  show ?thesis using g p r n convert_total_moves [where ti = ti and net_lag = net_lag and est = est] by blast
qed

theorem moves_left_division_witness:
  "time_stop_conditions 30 (Fin 1000)
      \<lparr>period = TT_TOTAL, dim_ti = TD_GAMES, games = 1000, main_time = Fin 0,
        byoyomi_time = Fin 0, byoyomi_periods = 0, timer_start = Fin 0, max_time = Fin 0,
        recommended_time = Fin 0\<rparr>
      \<lparr>board_size = 21, moves = 10, board_estimated_moves_left = 0\<rparr> 10 40 =
     Inl Div_zero_games
   \<and> (\<exists>r. time_stop_conditions 30 (Fin 1000)
      \<lparr>period = TT_TOTAL, dim_ti = TD_GAMES, games = 1000, main_time = Fin 0,
        byoyomi_time = Fin 0, byoyomi_periods = 0, timer_start = Fin 0, max_time = Fin 0,
        recommended_time = Fin 0\<rparr>
      \<lparr>board_size = 21, moves = 10, board_estimated_moves_left = 10\<rparr> 10 40 = Inr r)
   \<and> snd (convert_total
      \<lparr>period = TT_TOTAL, dim_ti = TD_WALLTIME, games = 0, main_time = Fin 600,
        byoyomi_time = Fin 0, byoyomi_periods = 0, timer_start = Fin 1000, max_time = Fin 600,
        recommended_time = Fin 600\<rparr> (Fin 2) 0) = 0
   \<and> recommended_time (total_to_move
      \<lparr>period = TT_TOTAL, dim_ti = TD_WALLTIME, games = 0, main_time = Fin 600,
        byoyomi_time = Fin 0, byoyomi_periods = 0, timer_start = Fin 1000, max_time = Fin 600,
        recommended_time = Fin 600\<rparr> (Fin 2) 0) = ddiv (Fin 600) (Fin 0)
   \<and> snd (convert_total
      \<lparr>period = TT_TOTAL, dim_ti = TD_WALLTIME, games = 0, main_time = Fin 600,
        byoyomi_time = Fin 30, byoyomi_periods = 0, timer_start = Fin 1000, max_time = Fin 600,
        recommended_time = Fin 600\<rparr> (Fin 2) 0) \<noteq> 0
   \<and> 1 \<le> snd (convert_total
      \<lparr>period = TT_TOTAL, dim_ti = TD_WALLTIME, games = 0, main_time = Fin 600,
        byoyomi_time = Fin 1, byoyomi_periods = 0, timer_start = Fin 1000, max_time = Fin 600,
        recommended_time = Fin 600\<rparr> (Fin 2) 5)
   \<and> time_stop_conditions 30 (Fin 1000)
      \<lparr>period = TT_TOTAL, dim_ti = TD_GAMES, games = 1000, main_time = Fin 0,
        byoyomi_time = Fin 0, byoyomi_periods = 0, timer_start = Fin 0, max_time = Fin 0,
        recommended_time = Fin 0\<rparr>
      \<lparr>board_size = 21, moves = 10, board_estimated_moves_left = 10\<rparr> 10 40
      \<noteq> Inl Div_zero_games"
  using moves_left_division [where mml = 30 and now = "Fin 1000" and fe = 10 and ys = 40
      and ti = "\<lparr>period = TT_TOTAL, dim_ti = TD_GAMES, games = 1000, main_time = Fin 0,
        byoyomi_time = Fin 0, byoyomi_periods = 0, timer_start = Fin 0, max_time = Fin 0,
        recommended_time = Fin 0\<rparr>"
      and b = "\<lparr>board_size = 21, moves = 10, board_estimated_moves_left = 0\<rparr>"
      and net_lag = "Fin 2" and est = 0]
    moves_left_division [where mml = 30 and now = "Fin 1000" and fe = 10 and ys = 40
      and ti = "\<lparr>period = TT_TOTAL, dim_ti = TD_GAMES, games = 1000, main_time = Fin 0,
        byoyomi_time = Fin 0, byoyomi_periods = 0, timer_start = Fin 0, max_time = Fin 0,
        recommended_time = Fin 0\<rparr>"
      and b = "\<lparr>board_size = 21, moves = 10, board_estimated_moves_left = 10\<rparr>"
      and net_lag = "Fin 2" and est = 0]
    moves_left_division [where mml = 30 and now = "Fin 1000" and fe = 10 and ys = 40
      and ti = "\<lparr>period = TT_TOTAL, dim_ti = TD_WALLTIME, games = 0, main_time = Fin 600,
        byoyomi_time = Fin 0, byoyomi_periods = 0, timer_start = Fin 1000, max_time = Fin 600,
        recommended_time = Fin 600\<rparr>"
      and b = "\<lparr>board_size = 21, moves = 10, board_estimated_moves_left = 0\<rparr>"
      and net_lag = "Fin 2" and est = 0]
    moves_left_division [where mml = 30 and now = "Fin 1000" and fe = 10 and ys = 40
      and ti = "\<lparr>period = TT_TOTAL, dim_ti = TD_WALLTIME, games = 0, main_time = Fin 600,
        byoyomi_time = Fin 30, byoyomi_periods = 0, timer_start = Fin 1000, max_time = Fin 600,
        recommended_time = Fin 600\<rparr>"
      and b = "\<lparr>board_size = 21, moves = 10, board_estimated_moves_left = 0\<rparr>"
      and net_lag = "Fin 2" and est = 0]
    moves_left_division [where mml = 30 and now = "Fin 1000" and fe = 10 and ys = 40
      and ti = "\<lparr>period = TT_TOTAL, dim_ti = TD_WALLTIME, games = 0, main_time = Fin 600,
        byoyomi_time = Fin 1, byoyomi_periods = 0, timer_start = Fin 1000, max_time = Fin 600,
        recommended_time = Fin 600\<rparr>"
      and b = "\<lparr>board_size = 21, moves = 10, board_estimated_moves_left = 0\<rparr>"
      and net_lag = "Fin 2" and est = 5]
  by (simp add: convert_total_def dgt_def dsub_def dneg_def d_of_int_def)

text \<open>
  A division of doubles by zero does not end the run: the quotient is an infinity or a
  NaN. With a main time of 600 seconds the run ends at the assertion on the recommended
  time; with a negative main time it returns.
\<close>

lemma zero_moves_left_assert:
  "time_stop_conditions 30 (Fin 1000)
      \<lparr>period = TT_TOTAL, dim_ti = TD_WALLTIME, games = 0, main_time = Fin 600,
        byoyomi_time = Fin 0, byoyomi_periods = 0, timer_start = Fin 0, max_time = Fin 0,
        recommended_time = Fin 0\<rparr>
      \<lparr>board_size = 21, moves = 10, board_estimated_moves_left = 0\<rparr> 10 40 =
     Inl Assert_recommended_max"
proof -
  obtain c where c: "dadd (Fin 600) milli = Fin c"
    using dadd_int_milli [of 600] by auto
  have "\<not> dle PInf (Fin c)" by (simp add: dle_def)
  then show ?thesis using c by (simp add: stop_defs)
qed

lemma zero_moves_left_returns:
  "time_stop_conditions 30 (Fin 1000)
      \<lparr>period = TT_TOTAL, dim_ti = TD_WALLTIME, games = 0, main_time = Fin (- 5),
        byoyomi_time = Fin 0, byoyomi_periods = 0, timer_start = Fin 0, max_time = Fin 0,
        recommended_time = Fin 0\<rparr>
      \<lparr>board_size = 21, moves = 10, board_estimated_moves_left = 0\<rparr> 10 40 =
     Inr (\<lparr>period = TT_MOVE, dim_ti = TD_WALLTIME, games = 0, main_time = Fin (- 5),
           byoyomi_time = Fin 0, byoyomi_periods = 0, timer_start = Fin 1000,
           max_time = Fin 0, recommended_time = Fin 0\<rparr>,
          \<lparr>desired = Time (Fin 998), worst = Time (Fin 998)\<rparr>)"
proof -
  obtain c where c: "dadd (Fin 0) milli = Fin c" "0 \<le> c"
    using dadd_int_milli [of 0] by auto
  show ?thesis using c by (simp add: stop_defs)
qed

subsection \<open>Order and arithmetic of doubles\<close>

lemma dle_trans: "dle a b \<Longrightarrow> dle b c \<Longrightarrow> dle a c"
  by (cases a; cases b; cases c) (auto simp add: dle_def)

lemma PInf_dle [simp]: "dle PInf a = (a = PInf)"
  by (cases a) (simp_all add: dle_def)

lemma dle_NInf [simp]: "dle a NInf = (a = NInf)"
  by (cases a) (simp_all add: dle_def)

lemma dadd_Fin_not_NaN: "x \<noteq> NaN \<Longrightarrow> dadd (Fin t) x \<noteq> NaN"
  by (cases x) simp_all

lemma dadd_mono: "dle x y \<Longrightarrow> dle (dadd (Fin t) x) (dadd (Fin t) y)"
  by (cases x; cases y) (simp_all add: dle_rnd_mono)

lemma dsub_Fin_not_NaN: "x \<noteq> NaN \<Longrightarrow> dsub x (Fin l) \<noteq> NaN"
  by (cases x) (simp_all add: dsub_def dneg_def)

lemma dsub_mono: "dle x y \<Longrightarrow> dle (dsub x (Fin l)) (dsub y (Fin l))"
  by (cases x; cases y) (simp_all add: dsub_def dneg_def dle_rnd_mono)

lemma deadline_mono:
  "dle x y \<Longrightarrow> dle (dsub (dadd (Fin t) x) (Fin l)) (dsub (dadd (Fin t) y) (Fin l))"
  by (intro dsub_mono dadd_mono)

lemma round53_DBL_MAX: "round53 DBL_MAX = DBL_MAX"
  by (rule round53_exact [where m = "2 ^ 53 - 1" and e = 971]) (simp_all add: DBL_MAX_def pow2_def)

lemma rnd_finite:
  assumes "\<bar>x\<bar> \<le> DBL_MAX"
  shows "\<exists>c. rnd x = Fin c \<and> \<bar>c\<bar> \<le> DBL_MAX"
proof -
  have "round53 (- DBL_MAX) = - DBL_MAX" by (simp add: round53_minus round53_DBL_MAX)
  then have "\<exists>c. rnd x = Fin c \<and> - DBL_MAX \<le> c \<and> c \<le> DBL_MAX"
    using assms DBL_MAX_pos by (intro rnd_between) (simp_all add: round53_DBL_MAX)
  then show ?thesis by auto
qed

lemma rnd_finite_nonneg:
  assumes "0 \<le> x" and "x \<le> DBL_MAX"
  shows "\<exists>c. rnd x = Fin c \<and> 0 \<le> c \<and> c \<le> DBL_MAX"
  using assms DBL_MAX_pos by (intro rnd_between) (simp_all add: round53_DBL_MAX)

lemma dmul_pos_not_NaN: "a \<noteq> NaN \<Longrightarrow> 0 < c \<Longrightarrow> dmul a (Fin c) \<noteq> NaN"
  by (cases a) simp_all

lemma ddiv_pos_not_NaN: "a \<noteq> NaN \<Longrightarrow> 0 < c \<Longrightarrow> ddiv a (Fin c) \<noteq> NaN"
  by (cases a) simp_all

lemma byoyomi_factor: "\<exists>c. dsub (d_of_int 2) MAX_BYOYOMI_TIME_EXTENSION = Fin c \<and> 0 < c"
proof -
  have "\<exists>c. rnd (2 - 2476979795053773 / 2 ^ 51) = Fin c \<and> 1 / 2 \<le> c \<and> c \<le> 1"
    by (intro rnd_between)
      (simp_all add: DBL_MAX_def round53_exact [where m = 1 and e = "- 1"]
        round53_exact [where m = 1 and e = 0] pow2_def)
  then show ?thesis
    by (auto simp add: byoyomi_extension_value dsub_def dneg_def d_of_int_def)
qed

subsection \<open>The limits of the wall-time branch\<close>

text \<open>
  The two limits at the end order the durations, unless one of them is a NaN; and no
  duration is a NaN when the maximal time is finite and \<^verbatim>\<open>MIN_MOVES_LEFT\<close> is positive.
\<close>

lemma limit_times_order:
  assumes "limit_times ti dw = (d, w)"
    and "d \<noteq> NaN" and "w \<noteq> NaN" and "max_time ti \<noteq> NaN"
  shows "dle d w" "dle w (max_time ti)"
proof -
  obtain d0 w0 where dw: "dw = (d0, w0)" by (cases dw)
  have w: "w = (if dgt w0 (max_time ti) then max_time ti else w0)"
    and d: "d = (if dgt d0 w then w else d0)"
    using assms(1) by (auto simp add: limit_times_def dw Let_def)
  show "dle w (max_time ti)"
  proof (cases "dgt w0 (max_time ti)")
    case True
    then show ?thesis using w assms(4) by (simp add: dle_refl)
  next
    case False
    then show ?thesis using w assms(3,4) by (simp add: dgt_def not_dlt_dle)
  qed
  show "dle d w"
  proof (cases "dgt d0 w")
    case True
    then show ?thesis using d assms(3) by (simp add: dle_refl)
  next
    case False
    then show ?thesis using d assms(2,3) by (simp add: dgt_def not_dlt_dle)
  qed
qed

lemma stop_limits_order:
  assumes "stop_limits mml ti b fe ys = Inr (d, w)"
    and "d \<noteq> NaN" and "w \<noteq> NaN" and "max_time ti \<noteq> NaN"
  shows "dle d w" "dle w (max_time ti)"
proof -
  obtain dw where "limit_times ti dw = (d, w)"
    using assms(1) by (auto simp add: stop_limits_def split: sum.splits)
  then show "dle d w" "dle w (max_time ti)"
    using limit_times_order [of ti dw d w] assms(2-4) by simp_all
qed

lemma main_time_desired_not_NaN:
  assumes "main_time_desired mml ti b fe ys = Inr d0"
    and "recommended_time ti = Fin r" and "0 \<le> r" and "r \<le> DBL_MAX"
    and "max_time ti = Fin m" and "0 \<le> m" and "m \<le> DBL_MAX"
    and "1 \<le> mml"
  shows "d0 \<noteq> NaN"
proof -
  define yose_start where "yose_start = c_div (ys * ((board_size b - 2) * (board_size b - 2))) 100"
  define fuseki_end where "fuseki_end = c_div (fe * ((board_size b - 2) * (board_size b - 2))) 100"
  define left where "left = left_at_yose_start mml b yose_start"
  have left: "1 \<le> left" using assms(8) by (simp add: left_def left_at_yose_start_def Let_def)
  then have lr: "1 \<le> real_of_int left" by simp
  have "0 \<le> m / real_of_int left" using assms(6) lr by simp
  moreover have "m / real_of_int left \<le> m"
  proof -
    have "m * 1 \<le> m * real_of_int left" using assms(6) lr by (intro mult_left_mono) simp_all
    then show ?thesis using lr by (simp add: field_simps)
  qed
  ultimately obtain l where l: "rnd (m / real_of_int left) = Fin l" "0 \<le> l" "l \<le> DBL_MAX"
    using rnd_finite_nonneg [of "m / real_of_int left"] assms(7) by auto
  have longest: "ddiv (max_time ti) (d_of_int left) = Fin l"
    using l(1) left by (simp add: assms(5) d_of_int_def)
  have "\<bar>l - r\<bar> \<le> DBL_MAX" using l(2,3) assms(3,4) by linarith
  then obtain x where x: "rnd (l - r) = Fin x"
    using rnd_finite [of "l - r"] by blast
  have interp: "0 < fuseki_end \<Longrightarrow>
      dadd (Fin r) (ddiv (dmul (dsub (Fin l) (Fin r)) (d_of_int (moves b))) (d_of_int fuseki_end))
        \<noteq> NaN"
  proof -
    assume f: "0 < fuseki_end"
    have "dmul (Fin x) (d_of_int (moves b)) \<noteq> NaN" by (simp add: d_of_int_def)
    then have "ddiv (dmul (Fin x) (d_of_int (moves b))) (d_of_int fuseki_end) \<noteq> NaN"
      using f by (simp add: d_of_int_def ddiv_pos_not_NaN)
    then show ?thesis by (simp add: dsub_def dneg_def x dadd_Fin_not_NaN)
  qed
  have "d0 = Fin r \<or> d0 = Fin l
      \<or> (0 < fuseki_end \<and> d0 = dadd (Fin r)
            (ddiv (dmul (dsub (Fin l) (Fin r)) (d_of_int (moves b))) (d_of_int fuseki_end)))"
    using assms(1)
    by (auto simp add: main_time_desired_def Let_def assms(2) longest
        yose_start_def [symmetric] fuseki_end_def [symmetric]
        left_def [symmetric] split: if_splits)
  then show ?thesis using interp by auto
qed

lemma raw_limits_not_NaN:
  assumes "raw_limits mml ti b fe ys = Inr (d0, w0)"
    and "recommended_time ti = Fin r" and "0 \<le> r" and "r \<le> DBL_MAX"
    and "max_time ti = Fin m" and "0 \<le> m" and "m \<le> DBL_MAX"
    and "1 \<le> mml"
  shows "d0 \<noteq> NaN \<and> w0 \<noteq> NaN"
proof (cases "time_in_byoyomi ti = Inr True")
  case True
  obtain c where c: "dsub (d_of_int 2) MAX_BYOYOMI_TIME_EXTENSION = Fin c"
    using byoyomi_factor by blast
  have "d0 = dmul (Fin r) (Fin c)" and "w0 = dmul (Fin r) MAX_BYOYOMI_TIME_EXTENSION"
    using assms(1) True by (simp_all add: raw_limits_def assms(2) c)
  then show ?thesis by (simp add: byoyomi_extension_value)
next
  case False
  then obtain d where d: "main_time_desired mml ti b fe ys = Inr d"
    and dw: "d0 = d" "w0 = dmul d MAX_MAIN_TIME_EXTENSION"
    using assms(1) by (auto simp add: raw_limits_def split: sum.splits if_splits)
  have "d \<noteq> NaN" using main_time_desired_not_NaN [OF d assms(2-8)] .
  then show ?thesis using dw by (simp add: MAX_MAIN_TIME_EXTENSION_def dmul_pos_not_NaN)
qed

lemma limit_times_not_NaN:
  assumes "limit_times ti (d0, w0) = (d, w)" and "d0 \<noteq> NaN" and "w0 \<noteq> NaN" and "max_time ti \<noteq> NaN"
  shows "d \<noteq> NaN \<and> w \<noteq> NaN"
  using assms by (auto simp add: limit_times_def Let_def split: if_splits)

text \<open>The recommended time is finite when the maximal time is.\<close>

lemma round53_above_DBL_MAX: "round53 (DBL_MAX + 1 / 512) = DBL_MAX"
  by (subst round53_eval [where k = 1023])
    (simp_all add: DBL_MAX_def pow2_def round_even_def Let_def)

lemma recommended_finite:
  assumes "dle (recommended_time ti) (dadd (max_time ti) milli)" and "dle (Fin 0) (recommended_time ti)"
    and "finite_double (max_time ti)"
  shows "\<exists>r. recommended_time ti = Fin r \<and> 0 \<le> r \<and> r \<le> DBL_MAX"
proof -
  obtain m where m: "max_time ti = Fin m" "\<bar>m\<bar> \<le> DBL_MAX"
    using assms(3) by (cases "max_time ti") (simp_all add: finite_double_def)
  obtain c where c: "milli = Fin c" "0 < c" "c < 1 / 512" using milli_bounds by blast
  have "round53 (m + c) \<le> round53 (DBL_MAX + 1 / 512)"
    using m(2) c(3) by (intro round53_mono) simp
  then have up: "round53 (m + c) \<le> DBL_MAX" by (simp add: round53_above_DBL_MAX)
  have "dle (recommended_time ti) (rnd (m + c))" using assms(1) by (simp add: m(1) c(1))
  then have "dle (recommended_time ti) (Fin DBL_MAX)"
    using up DBL_MAX_pos
    by (cases "recommended_time ti") (auto simp add: rnd_def Let_def split: if_splits)
  then show ?thesis using assms(2) by (cases "recommended_time ti") simp_all
qed

text \<open>
  C4, as amended. Whenever \<^verbatim>\<open>time_stop_conditions\<close> returns in the wall-time branch, the
  record it leaves has \<open>0 \<le> recommended_time \<le> max_time + 0.001\<close>, and the stop times
  are \<open>timer_start + d - lag\<close> and \<open>timer_start + w - lag\<close> for the desired duration
  \<open>d\<close> and the worst duration \<open>w\<close>. When neither duration is a NaN,
  \<open>d \<le> w \<le> max_time\<close>, and with a finite timer and lag the stop times are in this
  order and at most \<open>timer_start + max_time - lag\<close>. Neither duration is a NaN when
  \<open>max_time\<close> is finite and \<^verbatim>\<open>MIN_MOVES_LEFT\<close> is 1 or more.
\<close>

theorem walltime_limits_ordered:
  assumes "dim_ti ti = TD_WALLTIME"
    and "time_stop_conditions mml now ti b fe ys = Inr (ti1, st)"
  shows "dle (Fin 0) (recommended_time ti1)
       \<and> dle (recommended_time ti1) (dadd (max_time ti1) milli)
       \<and> (\<exists>lag d w.
             stop_walltime mml now ti b fe ys = Inr (ti1, lag, d, w)
           \<and> desired st = Time (dsub (dadd (timer_start ti1) d) lag)
           \<and> worst st = Time (dsub (dadd (timer_start ti1) w) lag)
           \<and> (finite_double (max_time ti1) \<and> 1 \<le> mml \<longrightarrow> d \<noteq> NaN \<and> w \<noteq> NaN)
           \<and> (d \<noteq> NaN \<and> w \<noteq> NaN \<longrightarrow>
                dle d w \<and> dle w (max_time ti1)
              \<and> (is_finite (timer_start ti1) \<and> is_finite lag \<longrightarrow>
                   dle (dsub (dadd (timer_start ti1) d) lag)
                       (dsub (dadd (timer_start ti1) w) lag)
                 \<and> dle (dsub (dadd (timer_start ti1) w) lag)
                       (dsub (dadd (timer_start ti1) (max_time ti1)) lag))))"
proof -
  obtain lag d w where sw: "stop_walltime mml now ti b fe ys = Inr (ti1, lag, d, w)"
    and st: "st = \<lparr>desired = Time (dsub (dadd (timer_start ti1) d) lag),
                    worst = Time (dsub (dadd (timer_start ti1) w) lag)\<rparr>"
    using assms
    by (auto simp add: time_stop_conditions_def split: if_splits sum.splits)
  from sw have sp: "stop_prepare now ti b = Inr (ti1, lag)"
    and sl: "stop_limits mml ti1 b fe ys = Inr (d, w)"
    by (auto simp add: stop_walltime_def split: sum.splits)
  have r: "dle (Fin 0) (recommended_time ti1)" "dle (Fin 0) (max_time ti1)"
    "dle (recommended_time ti1) (dadd (max_time ti1) milli)"
    using stop_prepare_fields(5-7) [OF sp] by simp_all
  have mn: "max_time ti1 \<noteq> NaN" using r(2) by (cases "max_time ti1") simp_all
  obtain d0 w0 where raw: "raw_limits mml ti1 b fe ys = Inr (d0, w0)"
    and lim: "limit_times ti1 (d0, w0) = (d, w)"
    using sl by (auto simp add: stop_limits_def split: sum.splits)
  have nan: "finite_double (max_time ti1) \<and> 1 \<le> mml \<longrightarrow> d \<noteq> NaN \<and> w \<noteq> NaN"
  proof
    assume h: "finite_double (max_time ti1) \<and> 1 \<le> mml"
    then obtain m where m: "max_time ti1 = Fin m" "\<bar>m\<bar> \<le> DBL_MAX"
      by (cases "max_time ti1") (simp_all add: finite_double_def)
    have m0: "0 \<le> m" using r(2) m(1) by simp
    obtain rr where rr: "recommended_time ti1 = Fin rr" "0 \<le> rr" "rr \<le> DBL_MAX"
      using recommended_finite [OF r(3) r(1)] h by blast
    have "d0 \<noteq> NaN \<and> w0 \<noteq> NaN"
      using raw_limits_not_NaN [OF raw rr m(1) m0] m(2) h by simp
    then show "d \<noteq> NaN \<and> w \<noteq> NaN"
      using limit_times_not_NaN [OF lim] mn by simp
  qed
  have ord: "d \<noteq> NaN \<and> w \<noteq> NaN \<longrightarrow>
                dle d w \<and> dle w (max_time ti1)
              \<and> (is_finite (timer_start ti1) \<and> is_finite lag \<longrightarrow>
                   dle (dsub (dadd (timer_start ti1) d) lag)
                       (dsub (dadd (timer_start ti1) w) lag)
                 \<and> dle (dsub (dadd (timer_start ti1) w) lag)
                       (dsub (dadd (timer_start ti1) (max_time ti1)) lag))"
  proof
    assume n: "d \<noteq> NaN \<and> w \<noteq> NaN"
    have o: "dle d w" "dle w (max_time ti1)"
      using stop_limits_order [OF sl] n mn by simp_all
    have "is_finite (timer_start ti1) \<and> is_finite lag \<longrightarrow>
                   dle (dsub (dadd (timer_start ti1) d) lag)
                       (dsub (dadd (timer_start ti1) w) lag)
                 \<and> dle (dsub (dadd (timer_start ti1) w) lag)
                       (dsub (dadd (timer_start ti1) (max_time ti1)) lag)"
    proof
      assume "is_finite (timer_start ti1) \<and> is_finite lag"
      then obtain t l where "timer_start ti1 = Fin t" "lag = Fin l"
        by (cases "timer_start ti1"; cases lag) (simp_all add: is_finite_def)
      then show "dle (dsub (dadd (timer_start ti1) d) lag)
                       (dsub (dadd (timer_start ti1) w) lag)
                 \<and> dle (dsub (dadd (timer_start ti1) w) lag)
                       (dsub (dadd (timer_start ti1) (max_time ti1)) lag)"
        using deadline_mono [OF o(1), of t l] deadline_mono [OF o(2), of t l] by simp
    qed
    then show "dle d w \<and> dle w (max_time ti1)
              \<and> (is_finite (timer_start ti1) \<and> is_finite lag \<longrightarrow>
                   dle (dsub (dadd (timer_start ti1) d) lag)
                       (dsub (dadd (timer_start ti1) w) lag)
                 \<and> dle (dsub (dadd (timer_start ti1) w) lag)
                       (dsub (dadd (timer_start ti1) (max_time ti1)) lag))"
      using o by blast
  qed
  show ?thesis using r(1,3) sw st nan ord by auto
qed

theorem walltime_limits_ordered_witness:
  "time_stop_conditions 30 (Fin 1000)
      \<lparr>period = TT_TOTAL, dim_ti = TD_WALLTIME, games = 0, main_time = Fin 600,
        byoyomi_time = Fin 0, byoyomi_periods = 0, timer_start = Fin 0, max_time = Fin 0,
        recommended_time = Fin 0\<rparr>
      \<lparr>board_size = 21, moves = 40, board_estimated_moves_left = 100\<rparr> 10 40 =
     Inr (\<lparr>period = TT_MOVE, dim_ti = TD_WALLTIME, games = 0, main_time = Fin 600,
           byoyomi_time = Fin 0, byoyomi_periods = 0, timer_start = Fin 1000,
           max_time = Fin 600, recommended_time = Fin 6\<rparr>,
          \<lparr>desired = Time (Fin (2021 / 2)), worst = Time (Fin (2071 / 2))\<rparr>)
   \<and> stop_walltime 30 (Fin 1000)
      \<lparr>period = TT_TOTAL, dim_ti = TD_WALLTIME, games = 0, main_time = Fin 600,
        byoyomi_time = Fin 0, byoyomi_periods = 0, timer_start = Fin 0, max_time = Fin 0,
        recommended_time = Fin 0\<rparr>
      \<lparr>board_size = 21, moves = 40, board_estimated_moves_left = 100\<rparr> 10 40 =
     Inr (\<lparr>period = TT_MOVE, dim_ti = TD_WALLTIME, games = 0, main_time = Fin 600,
           byoyomi_time = Fin 0, byoyomi_periods = 0, timer_start = Fin 1000,
           max_time = Fin 600, recommended_time = Fin 6\<rparr>, Fin 2, Fin (25 / 2), Fin (75 / 2))
   \<and> dle (Fin 0) (Fin 6) \<and> dle (Fin 6) (dadd (Fin 600) milli)
   \<and> dle (Fin (25 / 2)) (Fin (75 / 2)) \<and> dle (Fin (75 / 2)) (Fin 600)
   \<and> dle (Fin (2021 / 2)) (Fin (2071 / 2))
   \<and> dle (Fin (2071 / 2)) (dsub (dadd (Fin 1000) (Fin 600)) (Fin 2))"
proof -
  obtain c where c: "dadd (Fin 600) milli = Fin c" "600 \<le> c"
    using dadd_int_milli [of 600] by auto
  have sw: "stop_walltime 30 (Fin 1000)
      \<lparr>period = TT_TOTAL, dim_ti = TD_WALLTIME, games = 0, main_time = Fin 600,
        byoyomi_time = Fin 0, byoyomi_periods = 0, timer_start = Fin 0, max_time = Fin 0,
        recommended_time = Fin 0\<rparr>
      \<lparr>board_size = 21, moves = 40, board_estimated_moves_left = 100\<rparr> 10 40 =
     Inr (\<lparr>period = TT_MOVE, dim_ti = TD_WALLTIME, games = 0, main_time = Fin 600,
           byoyomi_time = Fin 0, byoyomi_periods = 0, timer_start = Fin 1000,
           max_time = Fin 600, recommended_time = Fin 6\<rparr>, Fin 2, Fin (25 / 2), Fin (75 / 2))"
    using c by (simp add: stop_defs)
  have h: "time_stop_conditions 30 (Fin 1000)
      \<lparr>period = TT_TOTAL, dim_ti = TD_WALLTIME, games = 0, main_time = Fin 600,
        byoyomi_time = Fin 0, byoyomi_periods = 0, timer_start = Fin 0, max_time = Fin 0,
        recommended_time = Fin 0\<rparr>
      \<lparr>board_size = 21, moves = 40, board_estimated_moves_left = 100\<rparr> 10 40 =
     Inr (\<lparr>period = TT_MOVE, dim_ti = TD_WALLTIME, games = 0, main_time = Fin 600,
           byoyomi_time = Fin 0, byoyomi_periods = 0, timer_start = Fin 1000,
           max_time = Fin 600, recommended_time = Fin 6\<rparr>,
          \<lparr>desired = Time (Fin (2021 / 2)), worst = Time (Fin (2071 / 2))\<rparr>)"
    by (simp add: time_stop_conditions_def sw dsub_def dneg_def)
  show ?thesis
    using walltime_limits_ordered [OF _ h] h sw
    by (simp add: finite_double_def is_finite_def DBL_MAX_def dsub_def dneg_def)
qed

text \<open>
  C4 as it is written fails: \<^verbatim>\<open>time_parse\<close> stores an infinite main time for the text
  \<^verbatim>\<open>1e999\<close>; the call then returns with durations and stop times that are NaN, which
  are in no order.
\<close>

theorem walltime_limits_nan_counterexample:
  "time_parse \<lparr>period = TT_NULL, dim_ti = TD_GAMES, games = 0, main_time = Fin 0,
        byoyomi_time = Fin 0, byoyomi_periods = 0, timer_start = Fin 0, max_time = Fin 0,
        recommended_time = Fin 0\<rparr> ''1e999'' =
     (True, \<lparr>period = TT_MOVE, dim_ti = TD_WALLTIME, games = 0, main_time = PInf,
        byoyomi_time = Fin 0, byoyomi_periods = 0, timer_start = Fin 0, max_time = Fin 0,
        recommended_time = Fin 0\<rparr>)
   \<and> time_stop_conditions 30 (Fin 1000)
      \<lparr>period = TT_MOVE, dim_ti = TD_WALLTIME, games = 0, main_time = PInf,
        byoyomi_time = Fin 0, byoyomi_periods = 0, timer_start = Fin 0, max_time = Fin 0,
        recommended_time = Fin 0\<rparr>
      \<lparr>board_size = 21, moves = 10, board_estimated_moves_left = 100\<rparr> 10 40 =
     Inr (\<lparr>period = TT_MOVE, dim_ti = TD_WALLTIME, games = 0, main_time = PInf,
           byoyomi_time = Fin 0, byoyomi_periods = 0, timer_start = Fin 1000,
           max_time = PInf, recommended_time = PInf\<rparr>,
          \<lparr>desired = Time NaN, worst = Time NaN\<rparr>)
   \<and> stop_walltime 30 (Fin 1000)
      \<lparr>period = TT_MOVE, dim_ti = TD_WALLTIME, games = 0, main_time = PInf,
        byoyomi_time = Fin 0, byoyomi_periods = 0, timer_start = Fin 0, max_time = Fin 0,
        recommended_time = Fin 0\<rparr>
      \<lparr>board_size = 21, moves = 10, board_estimated_moves_left = 100\<rparr> 10 40 =
     Inr (\<lparr>period = TT_MOVE, dim_ti = TD_WALLTIME, games = 0, main_time = PInf,
           byoyomi_time = Fin 0, byoyomi_periods = 0, timer_start = Fin 1000,
           max_time = PInf, recommended_time = PInf\<rparr>, Fin 2, NaN, NaN)
   \<and> \<not> dle NaN NaN \<and> \<not> dle NaN PInf"
proof -
  have p: "time_parse \<lparr>period = TT_NULL, dim_ti = TD_GAMES, games = 0, main_time = Fin 0,
        byoyomi_time = Fin 0, byoyomi_periods = 0, timer_start = Fin 0, max_time = Fin 0,
        recommended_time = Fin 0\<rparr> ''1e999'' =
     (True, \<lparr>period = TT_MOVE, dim_ti = TD_WALLTIME, games = 0, main_time = PInf,
        byoyomi_time = Fin 0, byoyomi_periods = 0, timer_start = Fin 0, max_time = Fin 0,
        recommended_time = Fin 0\<rparr>)"
    by (simp add: time_parse_def isdigit_def atof_large)
  have sw: "stop_walltime 30 (Fin 1000)
      \<lparr>period = TT_MOVE, dim_ti = TD_WALLTIME, games = 0, main_time = PInf,
        byoyomi_time = Fin 0, byoyomi_periods = 0, timer_start = Fin 0, max_time = Fin 0,
        recommended_time = Fin 0\<rparr>
      \<lparr>board_size = 21, moves = 10, board_estimated_moves_left = 100\<rparr> 10 40 =
     Inr (\<lparr>period = TT_MOVE, dim_ti = TD_WALLTIME, games = 0, main_time = PInf,
           byoyomi_time = Fin 0, byoyomi_periods = 0, timer_start = Fin 1000,
           max_time = PInf, recommended_time = PInf\<rparr>, Fin 2, NaN, NaN)"
    by (simp add: stop_defs milli_value)
  show ?thesis
    by (simp add: p sw time_stop_conditions_def dsub_def dneg_def)
qed

subsection \<open>The markers of the game phases\<close>

text \<open>
  The doubles of a run in byoyomi with 30 seconds for the move: the desired duration,
  the worst duration before the limit, and the desired stop time before the lag.
\<close>

lemma byoyomi_desired_factor:
  "dsub (d_of_int 2) MAX_BYOYOMI_TIME_EXTENSION = Fin (2026619832316723 / 2 ^ 51)"
proof -
  have "rnd (2 - 2476979795053773 / 2 ^ 51) = Fin (2026619832316723 / 2 ^ 51)"
    using rnd_dyadic [where m = 2026619832316723 and e = "- 51"
        and x = "2 - 2476979795053773 / 2 ^ 51"]
    by (simp add: pow2_def DBL_MAX_def)
  then show ?thesis
    by (simp add: byoyomi_extension_value dsub_def dneg_def d_of_int_def)
qed

lemma byoyomi_desired_30:
  "dmul (Fin 30) (dsub (d_of_int 2) MAX_BYOYOMI_TIME_EXTENSION) = Fin (7599824371187711 / 2 ^ 48)"
proof -
  have "rnd (30 * (2026619832316723 / 2 ^ 51)) = Fin (7599824371187711 / 2 ^ 48)"
    by (subst rnd_eval [where k = 4]) (simp_all add: pow2_def round_even_def Let_def)
  then show ?thesis by (simp add: byoyomi_desired_factor)
qed

lemma byoyomi_worst_30: "dmul (Fin 30) MAX_BYOYOMI_TIME_EXTENSION = Fin 33"
proof -
  have "rnd (30 * (2476979795053773 / 2 ^ 51)) = Fin 33"
    by (subst rnd_eval [where k = 5]) (simp_all add: pow2_def round_even_def Let_def)
  then show ?thesis by (simp add: byoyomi_extension_value)
qed

lemma byoyomi_deadline_30: "dadd (Fin 1000) (Fin (7599824371187711 / 2 ^ 48)) = Fin 1027"
proof -
  have "rnd (1000 + 7599824371187711 / 2 ^ 48) = Fin 1027"
    by (subst rnd_eval [where k = 10]) (simp_all add: pow2_def round_even_def Let_def)
  then show ?thesis by simp
qed

text \<open>
  C3, as amended. In the wall-time branch, once the first half has returned, scaled
  markers with \<open>fuseki_end \<ge> yose_start\<close> end the run at
  \<^verbatim>\<open>assert(fuseki_end < yose_start)\<close> when \<^verbatim>\<open>time_in_byoyomi\<close> is false. When it is true
  the markers are not looked at and the call returns. \<^verbatim>\<open>time_in_byoyomi\<close> is decided
  by the main time and the byoyomi time of the record as it came in.
\<close>

theorem markers_checked_in_main_time:
  assumes "period ti \<noteq> TT_NULL" and "dim_ti ti = TD_WALLTIME"
    and "stop_prepare now ti b = Inr (ti1, lag)"
    and "\<not> c_div (fe * ((board_size b - 2) * (board_size b - 2))) 100
           < c_div (ys * ((board_size b - 2) * (board_size b - 2))) 100"
  shows "time_in_byoyomi ti1 =
           Inr (\<not> is_zero (byoyomi_time ti)
                \<and> (is_zero (main_time ti)
                    \<or> dle (main_time ti) (dadd (byoyomi_time ti) milli)))
       \<and> (time_in_byoyomi ti1 = Inr False \<longrightarrow>
            time_stop_conditions mml now ti b fe ys = Inl Assert_fuseki_yose)
       \<and> (time_in_byoyomi ti1 = Inr True \<longrightarrow>
            (\<exists>st. time_stop_conditions mml now ti b fe ys = Inr (ti1, st)))"
proof -
  have f: "period ti1 = TT_MOVE" "dim_ti ti1 = TD_WALLTIME" "main_time ti1 = main_time ti"
    "byoyomi_time ti1 = byoyomi_time ti"
    using stop_prepare_fields(1-4) [OF assms(3)] assms(2) by simp_all
  have c1: "time_in_byoyomi ti1 =
           Inr (\<not> is_zero (byoyomi_time ti)
                \<and> (is_zero (main_time ti)
                    \<or> dle (main_time ti) (dadd (byoyomi_time ti) milli)))"
    using f by (simp add: time_in_byoyomi_def)
  have m: "main_time_desired mml ti1 b fe ys = Inl Assert_fuseki_yose"
    using assms(4) by (simp add: main_time_desired_def Let_def)
  have c2: "time_in_byoyomi ti1 = Inr False \<longrightarrow>
            time_stop_conditions mml now ti b fe ys = Inl Assert_fuseki_yose"
    using assms(1-3) m
    by (simp add: time_stop_conditions_def stop_walltime_def stop_limits_def raw_limits_def)
  have c3: "time_in_byoyomi ti1 = Inr True \<longrightarrow>
            (\<exists>st. time_stop_conditions mml now ti b fe ys = Inr (ti1, st))"
    using assms(1-3)
    by (simp add: time_stop_conditions_def stop_walltime_def stop_limits_def raw_limits_def
        Let_def split_beta)
  show ?thesis using c1 c2 c3 by blast
qed

theorem markers_checked_in_main_time_witness:
  "time_stop_conditions 30 (Fin 1000)
      \<lparr>period = TT_MOVE, dim_ti = TD_WALLTIME, games = 0, main_time = Fin 600,
        byoyomi_time = Fin 0, byoyomi_periods = 0, timer_start = Fin 0, max_time = Fin 0,
        recommended_time = Fin 0\<rparr>
      \<lparr>board_size = 21, moves = 10, board_estimated_moves_left = 100\<rparr> 40 20 =
     Inl Assert_fuseki_yose"
proof -
  obtain c where c: "dadd (Fin 600) milli = Fin c" "600 \<le> c"
    using dadd_int_milli [of 600] by auto
  have p: "stop_prepare (Fin 1000)
      \<lparr>period = TT_MOVE, dim_ti = TD_WALLTIME, games = 0, main_time = Fin 600,
        byoyomi_time = Fin 0, byoyomi_periods = 0, timer_start = Fin 0, max_time = Fin 0,
        recommended_time = Fin 0\<rparr>
      \<lparr>board_size = 21, moves = 10, board_estimated_moves_left = 100\<rparr> =
      Inr (\<lparr>period = TT_MOVE, dim_ti = TD_WALLTIME, games = 0, main_time = Fin 600,
           byoyomi_time = Fin 0, byoyomi_periods = 0, timer_start = Fin 1000,
           max_time = Fin 600, recommended_time = Fin 600\<rparr>, Fin 2)"
    using c by (simp add: stop_defs)
  have m: "\<not> c_div (40 * ((board_size \<lparr>board_size = 21, moves = 10, board_estimated_moves_left = 100\<rparr> - 2)
                          * (board_size \<lparr>board_size = 21, moves = 10, board_estimated_moves_left = 100\<rparr> - 2))) 100
           < c_div (20 * ((board_size \<lparr>board_size = 21, moves = 10, board_estimated_moves_left = 100\<rparr> - 2)
                          * (board_size \<lparr>board_size = 21, moves = 10, board_estimated_moves_left = 100\<rparr> - 2))) 100"
    by (simp add: c_div_def)
  show ?thesis
    using markers_checked_in_main_time [OF _ _ p m, where mml = 30]
    by (simp add: time_in_byoyomi_def is_zero_def)
qed

text \<open>
  C3 as it is written fails: in byoyomi, markers in the wrong order do not stop the call.
\<close>

theorem markers_in_byoyomi_counterexample:
  "\<not> c_div (40 * ((21 - 2) * (21 - 2))) 100 < c_div (20 * ((21 - 2) * (21 - 2))) 100
   \<and> time_stop_conditions 30 (Fin 1000)
      \<lparr>period = TT_MOVE, dim_ti = TD_WALLTIME, games = 0, main_time = Fin 0,
        byoyomi_time = Fin 30, byoyomi_periods = 0, timer_start = Fin 0, max_time = Fin 30,
        recommended_time = Fin 30\<rparr>
      \<lparr>board_size = 21, moves = 10, board_estimated_moves_left = 100\<rparr> 40 20 =
     Inr (\<lparr>period = TT_MOVE, dim_ti = TD_WALLTIME, games = 0, main_time = Fin 0,
           byoyomi_time = Fin 30, byoyomi_periods = 0, timer_start = Fin 1000,
           max_time = Fin 30, recommended_time = Fin 30\<rparr>,
          \<lparr>desired = Time (Fin (2045 / 2)), worst = Time (Fin (2051 / 2))\<rparr>)"
proof -
  obtain c where c: "dadd (Fin 30) milli = Fin c" "30 \<le> c"
    using dadd_int_milli [of 30] by auto
  have sp: "stop_prepare (Fin 1000)
      \<lparr>period = TT_MOVE, dim_ti = TD_WALLTIME, games = 0, main_time = Fin 0,
        byoyomi_time = Fin 30, byoyomi_periods = 0, timer_start = Fin 0, max_time = Fin 30,
        recommended_time = Fin 30\<rparr>
      \<lparr>board_size = 21, moves = 10, board_estimated_moves_left = 100\<rparr> =
     Inr (\<lparr>period = TT_MOVE, dim_ti = TD_WALLTIME, games = 0, main_time = Fin 0,
           byoyomi_time = Fin 30, byoyomi_periods = 0, timer_start = Fin 1000,
           max_time = Fin 30, recommended_time = Fin 30\<rparr>, Fin (9 / 2))"
    using c by (simp add: stop_defs)
  have rl: "raw_limits 30
      \<lparr>period = TT_MOVE, dim_ti = TD_WALLTIME, games = 0, main_time = Fin 0,
           byoyomi_time = Fin 30, byoyomi_periods = 0, timer_start = Fin 1000,
           max_time = Fin 30, recommended_time = Fin 30\<rparr>
      \<lparr>board_size = 21, moves = 10, board_estimated_moves_left = 100\<rparr> 40 20 =
      Inr (Fin (7599824371187711 / 2 ^ 48), Fin 33)"
    by (simp add: raw_limits_def time_in_byoyomi_def is_zero_def byoyomi_desired_30
        byoyomi_worst_30)
  have sl: "stop_limits 30
      \<lparr>period = TT_MOVE, dim_ti = TD_WALLTIME, games = 0, main_time = Fin 0,
           byoyomi_time = Fin 30, byoyomi_periods = 0, timer_start = Fin 1000,
           max_time = Fin 30, recommended_time = Fin 30\<rparr>
      \<lparr>board_size = 21, moves = 10, board_estimated_moves_left = 100\<rparr> 40 20 =
      Inr (Fin (7599824371187711 / 2 ^ 48), Fin 30)"
    by (simp add: stop_limits_def rl limit_times_def dgt_def)
  have "time_stop_conditions 30 (Fin 1000)
      \<lparr>period = TT_MOVE, dim_ti = TD_WALLTIME, games = 0, main_time = Fin 0,
        byoyomi_time = Fin 30, byoyomi_periods = 0, timer_start = Fin 0, max_time = Fin 30,
        recommended_time = Fin 30\<rparr>
      \<lparr>board_size = 21, moves = 10, board_estimated_moves_left = 100\<rparr> 40 20 =
     Inr (\<lparr>period = TT_MOVE, dim_ti = TD_WALLTIME, games = 0, main_time = Fin 0,
           byoyomi_time = Fin 30, byoyomi_periods = 0, timer_start = Fin 1000,
           max_time = Fin 30, recommended_time = Fin 30\<rparr>,
          \<lparr>desired = Time (dsub (dadd (Fin 1000) (Fin (7599824371187711 / 2 ^ 48))) (Fin (9 / 2))),
            worst = Time (dsub (dadd (Fin 1000) (Fin 30)) (Fin (9 / 2)))\<rparr>)"
    by (simp add: time_stop_conditions_def stop_walltime_def sp sl del: dadd.simps)
  then show ?thesis
    by (simp only: byoyomi_deadline_30) (simp add: c_div_def dsub_def dneg_def)
qed

end
